theory Spec2Isabelle
  imports Main "HOL-Library.Word" "HOL-Library.Sublist" "HOL-Library.Multiset"
begin

unbundle bit_operations_syntax

section \<open>Strings\<close>

text \<open>
  A JavaScript string is a sequence of UTF-16 code units; \<open>length\<close>, \<open>charCodeAt\<close>,
  \<open>substring\<close> and the regular expressions of the scripts all work on code units.
  A code unit is kept as its number.  \<open>str\<close> writes an ASCII literal.
\<close>

type_synonym jsstring = "nat list"

definition str :: "string \<Rightarrow> jsstring" where
  "str s = map of_char s"

section \<open>Numbers\<close>

text \<open>
  A JavaScript Number is a double.  \<open>toNumber n\<close> is the double nearest to the
  natural number \<open>n\<close>, as Node computes it (ties to even; \<open>None\<close> is infinity, from
  \<open>2^1024 - 2^970\<close> on).
\<close>

fun bitLength :: "nat \<Rightarrow> nat" where
  "bitLength n = (if n = 0 then 0 else Suc (bitLength (n div 2)))"

declare bitLength.simps [simp del]

definition toNumber :: "nat \<Rightarrow> nat option" where
  "toNumber n =
     (if n < 2 ^ 53 then Some n
      else let e = bitLength n - 53;
               q = n div 2 ^ e;
               r = n mod 2 ^ e;
               half = 2 ^ (e - 1);
               q' = (if half < r \<or> (r = half \<and> odd q) then q + 1 else q)
           in if 2 ^ 1024 \<le> q' * 2 ^ e then None else Some (q' * 2 ^ e))"

text \<open>
  The Numbers of the usage limiter are counts: the model keeps the Numbers of integer
  value (\<open>Fin n\<close>, for an integer \<open>n\<close> that is a double), the two infinities and
  \<open>NaN\<close>.  \<open>roundInt k\<close> is the Number nearest to the integer \<open>k\<close>; the sum and the
  difference of two such Numbers is the exact one, rounded.  \<open>jsLe\<close> is \<open><=\<close>, which is
  false when a side is \<open>NaN\<close>; \<open>jsMax0 x\<close> is \<open>Math.max(0, x)\<close>.  Zero has one sign.
\<close>

datatype jsnum = NaN | NegInf | Fin int | PosInf

definition roundInt :: "int \<Rightarrow> jsnum" where
  "roundInt k =
     (case toNumber (nat \<bar>k\<bar>) of
        None \<Rightarrow> if k < 0 then NegInf else PosInf
      | Some m \<Rightarrow> Fin (if k < 0 then - int m else int m))"

fun jsAdd :: "jsnum \<Rightarrow> jsnum \<Rightarrow> jsnum" where
  "jsAdd (Fin a) (Fin b) = roundInt (a + b)"
| "jsAdd NaN y = NaN"
| "jsAdd x NaN = NaN"
| "jsAdd PosInf NegInf = NaN"
| "jsAdd NegInf PosInf = NaN"
| "jsAdd PosInf y = PosInf"
| "jsAdd x PosInf = PosInf"
| "jsAdd NegInf y = NegInf"
| "jsAdd x NegInf = NegInf"

fun jsNeg :: "jsnum \<Rightarrow> jsnum" where
  "jsNeg NaN = NaN"
| "jsNeg NegInf = PosInf"
| "jsNeg (Fin a) = Fin (- a)"
| "jsNeg PosInf = NegInf"

definition jsSub :: "jsnum \<Rightarrow> jsnum \<Rightarrow> jsnum" where
  "jsSub x y = jsAdd x (jsNeg y)"

fun jsLe :: "jsnum \<Rightarrow> jsnum \<Rightarrow> bool" where
  "jsLe NaN y = False"
| "jsLe x NaN = False"
| "jsLe NegInf y = True"
| "jsLe x PosInf = True"
| "jsLe (Fin a) (Fin b) = (a \<le> b)"
| "jsLe PosInf y = False"
| "jsLe x NegInf = False"

definition jsMax0 :: "jsnum \<Rightarrow> jsnum" where
  "jsMax0 x = (if x = NaN then NaN else if jsLe x (Fin 0) then Fin 0 else x)"

text \<open>An integer that is a double: rounding leaves it as it is.\<close>

definition representable :: "int \<Rightarrow> bool" where
  "representable k = (roundInt k = Fin k)"

section \<open>Usage limiter (scripts/usage-limit.js)\<close>

text \<open>
  The counter file \<open>dist/usage-counters.json\<close> is kept in parsed form.  It is
  \<open>Missing\<close>; or \<open>Corrupt\<close>: its content is not JSON, or is JSON without a string
  property \<open>date\<close> (reading \<open>date\<close> of \<open>null\<close> throws, and no other value equals
  the date of today); or it is an object with a string \<open>date\<close>, \<open>Stored\<close>, of which
  the model keeps the date and the value of the property \<open>geminiCallsToday\<close>: absent
  (\<open>undefined\<close>), \<open>null\<close>, a boolean or a Number.  A count that is a string, an array
  or an object is outside the model: adding to it concatenates strings.
  \<open>toNumeric\<close> is the Number that \<open>+\<close> makes of such a value.
  The UTC date \<open>utcToday()\<close> is a parameter of every operation.  Every operation takes
  the file and returns it, so that what is written, and what is not, is part of the model.
\<close>

datatype count_value = CountAbsent | CountNull | CountBool bool | CountNumber jsnum

record counters =
  date :: jsstring
  geminiCallsToday :: count_value

datatype counters_file = Missing | Corrupt | Stored counters

definition toNumeric :: "count_value \<Rightarrow> jsnum" where
  "toNumeric v =
     (case v of
        CountAbsent \<Rightarrow> NaN
      | CountNull \<Rightarrow> Fin 0
      | CountBool b \<Rightarrow> Fin (if b then 1 else 0)
      | CountNumber n \<Rightarrow> n)"

definition loadCounters :: "jsstring \<Rightarrow> counters_file \<Rightarrow> counters" where
  "loadCounters today f =
     (case f of
        Stored data \<Rightarrow>
          if date data = today then data
          else \<lparr>date = today, geminiCallsToday = CountNumber (Fin 0)\<rparr>
      | _ \<Rightarrow> \<lparr>date = today, geminiCallsToday = CountNumber (Fin 0)\<rparr>)"

text \<open>
  \<open>JSON.stringify\<close> writes \<open>null\<close> for a Number that is not finite; what is read
  back from the file is the value as written.
\<close>

definition stringifyCount :: "count_value \<Rightarrow> count_value" where
  "stringifyCount v =
     (case v of
        CountNumber (Fin n) \<Rightarrow> CountNumber (Fin n)
      | CountNumber other \<Rightarrow> CountNull
      | other \<Rightarrow> other)"

definition saveCounters :: "counters \<Rightarrow> counters_file \<Rightarrow> counters_file" where
  "saveCounters c f = Stored (c\<lparr>geminiCallsToday := stringifyCount (geminiCallsToday c)\<rparr>)"

definition canSpendGemini :: "jsstring \<Rightarrow> jsnum \<Rightarrow> jsnum \<Rightarrow> counters_file \<Rightarrow> bool \<times> counters_file" where
  "canSpendGemini today callsNeeded cap f =
     (let c = loadCounters today f
      in (jsLe (jsAdd (toNumeric (geminiCallsToday c)) callsNeeded) cap, f))"

definition recordGeminiCalls :: "jsstring \<Rightarrow> jsnum \<Rightarrow> counters_file \<Rightarrow> jsnum \<times> counters_file" where
  "recordGeminiCalls today cnt f =
     (let c = loadCounters today f;
          total = jsAdd (toNumeric (geminiCallsToday c)) cnt;
          c' = c\<lparr>geminiCallsToday := CountNumber total\<rparr>
      in (total, saveCounters c' f))"

definition geminiCallsTodayNow :: "jsstring \<Rightarrow> counters_file \<Rightarrow> count_value \<times> counters_file" where
  "geminiCallsTodayNow today f = (geminiCallsToday (loadCounters today f), f)"

definition geminiCallsRemaining :: "jsstring \<Rightarrow> jsnum \<Rightarrow> counters_file \<Rightarrow> jsnum \<times> counters_file" where
  "geminiCallsRemaining today cap f =
     (let used = geminiCallsToday (loadCounters today f)
      in (jsMax0 (jsSub cap (toNumeric used)), f))"

text \<open>
  The words of the specification: today's count is the stored count when the stored
  date is the current UTC date, and zero otherwise (day rollover, missing or corrupt
  file).  A file is well formed when the object it holds for today, if it holds one, has
  an integer count.
\<close>

definition todays_count :: "jsstring \<Rightarrow> counters_file \<Rightarrow> int" where
  "todays_count today f =
     (case f of
        Stored c \<Rightarrow>
          if date c = today
          then (case geminiCallsToday c of CountNumber (Fin n) \<Rightarrow> n | _ \<Rightarrow> 0)
          else 0
      | _ \<Rightarrow> 0)"

definition well_formed_today :: "jsstring \<Rightarrow> counters_file \<Rightarrow> bool" where
  "well_formed_today today f =
     (case f of
        Stored c \<Rightarrow>
          date c \<noteq> today
          \<or> (case geminiCallsToday c of CountNumber (Fin n) \<Rightarrow> representable n | _ \<Rightarrow> False)
      | _ \<Rightarrow> True)"

text \<open>
  The two read-only operations as commands, each issued at its own UTC date, and a run
  of such commands on the counter file.
\<close>

datatype limiter_query = CanSpend jsnum jsnum | Remaining jsnum

fun run_query :: "jsstring \<times> limiter_query \<Rightarrow> counters_file \<Rightarrow> counters_file" where
  "run_query (today, CanSpend callsNeeded cap) f = snd (canSpendGemini today callsNeeded cap f)"
| "run_query (today, Remaining cap) f = snd (geminiCallsRemaining today cap f)"

fun run_queries :: "(jsstring \<times> limiter_query) list \<Rightarrow> counters_file \<Rightarrow> counters_file" where
  "run_queries [] f = f"
| "run_queries (q # qs) f = run_queries qs (run_query q f)"

section \<open>Article ids (generateId, scripts/fetch-rss.js)\<close>

text \<open>
  \<open>hash << 5\<close> and \<open>hash & hash\<close> convert their operand to a signed 32-bit integer
  (\<open>ToInt32\<close>); the subtraction and the addition between them are exact, since their
  operands are small.  The loop body is \<open>hashStep\<close>, the loop is \<open>hashLoop\<close>.
\<close>

definition toInt32 :: "int \<Rightarrow> int" where
  "toInt32 x = (x + 2 ^ 31) mod 2 ^ 32 - 2 ^ 31"

definition hashStep :: "int \<Rightarrow> nat \<Rightarrow> int" where
  "hashStep hash char = toInt32 ((toInt32 (hash * 2 ^ 5) - hash) + int char)"

fun hashLoop :: "jsstring \<Rightarrow> int \<Rightarrow> int" where
  "hashLoop [] hash = hash"
| "hashLoop (char # rest) hash = hashLoop rest (hashStep hash char)"

text \<open>\<open>Number.prototype.toString(36)\<close> on a non-negative integer: digits \<open>0-9a-z\<close>.\<close>

definition digit36 :: "nat \<Rightarrow> nat" where
  "digit36 d = (if d < 10 then 48 + d else 87 + d)"

fun toString36 :: "nat \<Rightarrow> jsstring" where
  "toString36 n =
     (if n < 36 then [digit36 n] else toString36 (n div 36) @ [digit36 (n mod 36)])"

declare toString36.simps [simp del]

definition generateId :: "jsstring \<Rightarrow> jsstring \<Rightarrow> jsstring" where
  "generateId title url = toString36 (nat \<bar>hashLoop (title @ str ''-'' @ url) 0\<bar>)"

text \<open>
  The words of the specification: a rolling hash on 32-bit words, each step shifting the
  hash left by five, subtracting the hash and adding the code unit; and the value that a
  string of base-36 digits denotes.
\<close>

definition rolling_hash32 :: "jsstring \<Rightarrow> 32 word" where
  "rolling_hash32 s = fold (\<lambda>c h. (push_bit 5 h - h) + of_nat c) s 0"

definition base36_digit_value :: "nat \<Rightarrow> nat" where
  "base36_digit_value c = (if c < 58 then c - 48 else c - 87)"

definition base36_value :: "jsstring \<Rightarrow> nat" where
  "base36_value s = foldl (\<lambda>v c. 36 * v + base36_digit_value c) 0 s"

section \<open>Text cleaning (scripts/fetch-rss.js)\<close>

text \<open>
  The regular expressions of the scripts have no \<open>u\<close> flag and work on code units.
  \<open>isWhiteSpace\<close> is the class \<open>\s\<close>, which is also what \<open>trim\<close> removes.
\<close>

definition isDigit :: "nat \<Rightarrow> bool" where
  "isDigit c = (48 \<le> c \<and> c \<le> 57)"

definition isHexDigit :: "nat \<Rightarrow> bool" where
  "isHexDigit c = (isDigit c \<or> (97 \<le> c \<and> c \<le> 102) \<or> (65 \<le> c \<and> c \<le> 70))"

definition isWhiteSpace :: "nat \<Rightarrow> bool" where
  "isWhiteSpace c =
     (c \<in> {9, 10, 11, 12, 13, 32, 160, 5760, 8232, 8233, 8239, 8287, 12288, 65279}
      \<or> (8192 \<le> c \<and> c \<le> 8202))"

text \<open>
  \<open>text.replace(/re/g, r)\<close>: the string is scanned from the left; where the
  expression matches, the replacement is written and the scan goes on behind the match;
  elsewhere the code unit is copied.  A matcher \<open>m\<close> tells, for the rest of the
  string, how many code units the expression matches there and what replaces them.
  \<open>replaceAllBy m k\<close> first skips the \<open>k\<close> code units left of a match.
\<close>

fun replaceAllBy :: "(jsstring \<Rightarrow> (nat \<times> jsstring) option) \<Rightarrow> nat \<Rightarrow> jsstring \<Rightarrow> jsstring" where
  "replaceAllBy m skip [] = []"
| "replaceAllBy m (Suc k) (c # cs) = replaceAllBy m k cs"
| "replaceAllBy m 0 (c # cs) =
     (case m (c # cs) of
        Some (Suc n, r) \<Rightarrow> r @ replaceAllBy m n cs
      | _ \<Rightarrow> c # replaceAllBy m 0 cs)"

definition replaceAll :: "(jsstring \<Rightarrow> (nat \<times> jsstring) option) \<Rightarrow> jsstring \<Rightarrow> jsstring" where
  "replaceAll m s = replaceAllBy m 0 s"

text \<open>A literal pattern such as \<open>/&amp;/\<close>.\<close>

definition matchLiteral :: "jsstring \<Rightarrow> jsstring \<Rightarrow> jsstring \<Rightarrow> (nat \<times> jsstring) option" where
  "matchLiteral p r s = (if prefix p s then Some (length p, r) else None)"

text \<open>\<open>/<[^>]*>/\<close>: a \<open><\<close>, then everything up to the next \<open>>\<close>.\<close>

definition matchTag :: "jsstring \<Rightarrow> (nat \<times> jsstring) option" where
  "matchTag s =
     (case s of
        [] \<Rightarrow> None
      | c # cs \<Rightarrow>
          if c = 60 \<and> 62 \<in> set cs
          then Some (length (takeWhile (\<lambda>d. d \<noteq> 62) cs) + 2, [])
          else None)"

text \<open>
  \<open>String.fromCharCode(dec)\<close> and \<open>parseInt(hex, 16)\<close> turn the digits into a
  Number, the nearest double (\<open>toNumber\<close>, on the value of the digits), and
  \<open>fromCharCode\<close> keeps it modulo \<open>2^16\<close> (infinity gives 0).
\<close>

definition fromCharCode :: "nat option \<Rightarrow> jsstring" where
  "fromCharCode v = (case v of None \<Rightarrow> [0] | Some n \<Rightarrow> [n mod 2 ^ 16])"

definition digitValue :: "nat \<Rightarrow> nat" where
  "digitValue c = (if isDigit c then c - 48 else if 97 \<le> c then c - 87 else c - 55)"

definition parseDigits :: "nat \<Rightarrow> jsstring \<Rightarrow> nat" where
  "parseDigits radix ds = foldl (\<lambda>v c. radix * v + digitValue c) 0 ds"

text \<open>\<open>/&#(\d+);/\<close> and \<open>/&#x([0-9a-fA-F]+);/\<close>.\<close>

definition matchDecEntity :: "jsstring \<Rightarrow> (nat \<times> jsstring) option" where
  "matchDecEntity s =
     (if prefix [38, 35] s
      then let ds = takeWhile isDigit (drop 2 s);
               rest = dropWhile isDigit (drop 2 s)
           in if ds \<noteq> [] \<and> prefix [59] rest
              then Some (length ds + 3, fromCharCode (toNumber (parseDigits 10 ds)))
              else None
      else None)"

definition matchHexEntity :: "jsstring \<Rightarrow> (nat \<times> jsstring) option" where
  "matchHexEntity s =
     (if prefix [38, 35, 120] s
      then let hs = takeWhile isHexDigit (drop 3 s);
               rest = dropWhile isHexDigit (drop 3 s)
           in if hs \<noteq> [] \<and> prefix [59] rest
              then Some (length hs + 4, fromCharCode (toNumber (parseDigits 16 hs)))
              else None
      else None)"

text \<open>The named replacements, in the order of the chain of \<open>replace\<close> calls.\<close>

definition namedEntities :: "(jsstring \<times> jsstring) list" where
  "namedEntities =
     [(str ''&amp;'', str ''&''),
      (str ''&lt;'', str ''<''),
      (str ''&gt;'', str ''>''),
      (str ''&quot;'', [34]),
      (str ''&apos;'', [39]),
      (str ''&#39;'', [39]),
      (str ''&nbsp;'', str '' ''),
      (str ''&mdash;'', [8212]),
      (str ''&ndash;'', [8211]),
      (str ''&hellip;'', str ''...''),
      (str ''&lsquo;'', [8216]),
      (str ''&rsquo;'', [8217]),
      (str ''&ldquo;'', [8220]),
      (str ''&rdquo;'', [8221])]"

definition decodeHtmlEntities :: "jsstring \<Rightarrow> jsstring" where
  "decodeHtmlEntities text =
     (if text = [] then []
      else fold (\<lambda>(p, r). replaceAll (matchLiteral p r)) namedEntities
             (replaceAll matchHexEntity (replaceAll matchDecEntity text)))"

text \<open>\<open>/\s+/\<close>, replaced by one space, and \<open>trim()\<close>.\<close>

definition matchWhiteSpace :: "jsstring \<Rightarrow> (nat \<times> jsstring) option" where
  "matchWhiteSpace s =
     (case takeWhile isWhiteSpace s of [] \<Rightarrow> None | w # ws \<Rightarrow> Some (Suc (length ws), [32]))"

definition trim :: "jsstring \<Rightarrow> jsstring" where
  "trim s = rev (dropWhile isWhiteSpace (rev (dropWhile isWhiteSpace s)))"

text \<open>
  \<open>/\s+[-\<dots>|]\s+[A-Z][A-Za-z\s]{2,20}$/\<close> (the separators are hyphen, en dash, em dash
  and bar): \<open>matchSourceSuffix s\<close> tells whether the whole of \<open>s\<close> matches.  Neither a
  separator nor a capital is white space, so both \<open>\s+\<close> take all the white space
  there is.  \<open>replace\<close> without the \<open>g\<close> flag removes the leftmost match, that
  is the longest end of the string that matches.
\<close>

definition matchSourceSuffix :: "jsstring \<Rightarrow> bool" where
  "matchSourceSuffix s =
     (let ws1 = takeWhile isWhiteSpace s; r1 = dropWhile isWhiteSpace s
      in ws1 \<noteq> [] \<and>
         (case r1 of
            [] \<Rightarrow> False
          | sep # r2 \<Rightarrow>
              sep \<in> {45, 8211, 8212, 124} \<and>
              (let ws2 = takeWhile isWhiteSpace r2; r3 = dropWhile isWhiteSpace r2
               in ws2 \<noteq> [] \<and>
                  (case r3 of
                     [] \<Rightarrow> False
                   | u # tail \<Rightarrow>
                       65 \<le> u \<and> u \<le> 90 \<and> 2 \<le> length tail \<and> length tail \<le> 20 \<and>
                       (\<forall>c \<in> set tail. (65 \<le> c \<and> c \<le> 90) \<or> (97 \<le> c \<and> c \<le> 122) \<or> isWhiteSpace c)))))"

fun stripSourceSuffix :: "jsstring \<Rightarrow> jsstring" where
  "stripSourceSuffix [] = []"
| "stripSourceSuffix (c # cs) =
     (if matchSourceSuffix (c # cs) then [] else c # stripSourceSuffix cs)"

definition cleanHeadline :: "jsstring \<Rightarrow> jsstring" where
  "cleanHeadline title =
     (if title = [] then str ''Aviation News''
      else trim (replaceAll matchWhiteSpace
             (stripSourceSuffix (decodeHtmlEntities (replaceAll matchTag title)))))"

definition cleanDescription :: "jsstring \<Rightarrow> jsstring" where
  "cleanDescription description =
     (if description = [] then []
      else let cleaned = trim (replaceAll matchWhiteSpace
                           (decodeHtmlEntities (replaceAll matchTag description)))
           in if 300 < length cleaned then take 297 cleaned @ str ''...'' else cleaned)"

text \<open>
  The words of the specification: a character-entity sequence starts where one of the
  expressions of \<open>decodeHtmlEntities\<close> matches; a string is clean when none starts
  anywhere in it.
\<close>

definition entityAt :: "jsstring \<Rightarrow> bool" where
  "entityAt s =
     (matchDecEntity s \<noteq> None \<or> matchHexEntity s \<noteq> None
      \<or> (\<exists>(p, r) \<in> set namedEntities. prefix p s))"

definition hasEntity :: "jsstring \<Rightarrow> bool" where
  "hasEntity s = (\<exists>t \<in> set (suffixes s). entityAt t)"

text \<open>
  The words of the specification, only one pass: the string is scanned once, and an
  entity is replaced where it stands; what a replacement writes is not scanned again.
\<close>

definition matchEntity :: "jsstring \<Rightarrow> (nat \<times> jsstring) option" where
  "matchEntity s =
     (case matchDecEntity s of
        Some m \<Rightarrow> Some m
      | None \<Rightarrow>
          (case matchHexEntity s of
             Some m \<Rightarrow> Some m
           | None \<Rightarrow>
               (case find (\<lambda>(p, r). prefix p s) namedEntities of
                  Some (p, r) \<Rightarrow> Some (length p, r)
                | None \<Rightarrow> None)))"

definition decode_single_pass :: "jsstring \<Rightarrow> jsstring" where
  "decode_single_pass text = replaceAll matchEntity text"

section \<open>Articles, keywords and the fallback takeaway (scripts/fetch-rss.js)\<close>

text \<open>
  \<open>publishedAt\<close> is the instant of the ISO string, in milliseconds.  Only manual
  articles carry a \<open>priority\<close>.  \<open>toLowerCase\<close> is a parameter \<open>lower\<close> of the
  functions that call it.  \<open>jsIncludes\<close> is \<open>String.prototype.includes\<close>.
\<close>

record source =
  name :: jsstring
  url :: jsstring

record article =
  articleId :: jsstring
  headline :: jsstring
  blurb :: jsstring
  source :: source
  category :: jsstring
  publishedAt :: int
  takeaway :: "jsstring option"
  keywords' :: "jsstring list"
  priority :: "jsstring option"

fun jsIncludes :: "jsstring \<Rightarrow> jsstring \<Rightarrow> bool" where
  "jsIncludes [] p = (p = [])"
| "jsIncludes (c # cs) p = (prefix p (c # cs) \<or> jsIncludes cs p)"

text \<open>\<open>v || d\<close> on a string that may be absent: the empty string is falsy too.\<close>

definition orElse :: "jsstring option \<Rightarrow> jsstring \<Rightarrow> jsstring" where
  "orElse v d = (case v of None \<Rightarrow> d | Some s \<Rightarrow> if s = [] then d else s)"

definition keywordPatterns :: "jsstring list" where
  "keywordPatterns =
     map str
       [''boeing'', ''airbus'', ''cessna'', ''piper'', ''cirrus'', ''gulfstream'', ''embraer'',
        ''faa'', ''easa'', ''ntsb'', ''icao'',
        ''evtol'', ''uam'', ''drone'', ''uas'', ''aam'',
        ''electric'', ''hybrid'', ''sustainable'', ''saf'',
        ''safety'', ''crash'', ''incident'', ''accident'',
        ''airline'', ''airport'', ''pilot'', ''atc'',
        ''nasa'', ''spacex'', ''space'']"

definition extractKeywords :: "(jsstring \<Rightarrow> jsstring) \<Rightarrow> jsstring \<Rightarrow> jsstring list" where
  "extractKeywords lower text =
     (let lowerText = lower text
      in filter (\<lambda>keyword. jsIncludes lowerText keyword) keywordPatterns)"

definition createFallbackTakeaway :: "(jsstring \<Rightarrow> jsstring) \<Rightarrow> article \<Rightarrow> jsstring" where
  "createFallbackTakeaway lower article =
     (let text = lower (headline article @ str '' '' @ orElse (Some (blurb article)) []);
          category = category article
      in if category = str ''safety'' \<or> jsIncludes text (str ''safety'')
            \<or> jsIncludes text (str ''crash'') \<or> jsIncludes text (str ''incident'')
         then str ''Safety implications warrant industry attention.''
         else if category = str ''regulatory'' \<or> jsIncludes text (str ''faa'')
            \<or> jsIncludes text (str ''easa'') \<or> jsIncludes text (str ''regulation'')
         then str ''Regulatory changes may affect industry operations.''
         else if category = str ''evtol'' \<or> jsIncludes text (str ''evtol'')
            \<or> jsIncludes text (str ''air taxi'') \<or> jsIncludes text (str ''urban air'')
         then str ''Urban air mobility advances toward commercial reality.''
         else if category = str ''drones'' \<or> jsIncludes text (str ''drone'')
            \<or> jsIncludes text (str ''uas'') \<or> jsIncludes text (str ''unmanned'')
         then str ''Drone technology continues to reshape aviation operations.''
         else if category = str ''electric'' \<or> jsIncludes text (str ''electric'')
            \<or> jsIncludes text (str ''hybrid'') \<or> jsIncludes text (str ''sustainable'')
         then str ''Sustainable aviation technology gains momentum.''
         else if jsIncludes text (str ''boeing'')
         then str ''Boeing developments impact global aviation supply chain.''
         else if jsIncludes text (str ''airbus'')
         then str ''Airbus activity reflects European aerospace trends.''
         else if category = str ''aerospace'' \<or> jsIncludes text (str ''nasa'')
            \<or> jsIncludes text (str ''space'')
         then str ''Aerospace developments expand industry horizons.''
         else if category = str ''military''
         then str ''Military aviation advances influence broader industry.''
         else if category = str ''commercial'' \<or> jsIncludes text (str ''airline'')
            \<or> jsIncludes text (str ''airport'')
         then str ''Commercial aviation dynamics shape travel industry.''
         else if category = str ''business-aviation''
         then str ''Business aviation sector shows evolving market trends.''
         else str ''Industry developments to monitor closely.'')"

text \<open>
  The words of the specification: the rules as a table, in their priority order, each
  with the category and the keywords that trigger it and its sentence; the takeaway is
  the sentence of the first rule that matches, and the generic sentence when none does.
\<close>

definition fallbackRules :: "(jsstring list \<times> jsstring list \<times> jsstring) list" where
  "fallbackRules =
     [([str ''safety''], map str [''safety'', ''crash'', ''incident''],
         str ''Safety implications warrant industry attention.''),
      ([str ''regulatory''], map str [''faa'', ''easa'', ''regulation''],
         str ''Regulatory changes may affect industry operations.''),
      ([str ''evtol''], map str [''evtol'', ''air taxi'', ''urban air''],
         str ''Urban air mobility advances toward commercial reality.''),
      ([str ''drones''], map str [''drone'', ''uas'', ''unmanned''],
         str ''Drone technology continues to reshape aviation operations.''),
      ([str ''electric''], map str [''electric'', ''hybrid'', ''sustainable''],
         str ''Sustainable aviation technology gains momentum.''),
      ([], [str ''boeing''], str ''Boeing developments impact global aviation supply chain.''),
      ([], [str ''airbus''], str ''Airbus activity reflects European aerospace trends.''),
      ([str ''aerospace''], map str [''nasa'', ''space''],
         str ''Aerospace developments expand industry horizons.''),
      ([str ''military''], [], str ''Military aviation advances influence broader industry.''),
      ([str ''commercial''], map str [''airline'', ''airport''],
         str ''Commercial aviation dynamics shape travel industry.''),
      ([str ''business-aviation''], [],
         str ''Business aviation sector shows evolving market trends.'')]"

definition ruleMatches :: "jsstring \<Rightarrow> jsstring \<Rightarrow> jsstring list \<times> jsstring list \<times> jsstring \<Rightarrow> bool" where
  "ruleMatches cat text rule =
     (case rule of (cats, kws, sentence) \<Rightarrow>
        cat \<in> set cats \<or> (\<exists>k \<in> set kws. jsIncludes text k))"

definition first_matching_rule :: "(jsstring \<Rightarrow> jsstring) \<Rightarrow> article \<Rightarrow> jsstring" where
  "first_matching_rule lower a =
     (case find (ruleMatches (category a) (lower (headline a @ str '' '' @ blurb a))) fallbackRules of
        Some (cats, kws, sentence) \<Rightarrow> sentence
      | None \<Rightarrow> str ''Industry developments to monitor closely.'')"

text \<open>An instance of \<open>toLowerCase\<close> on ASCII text, for evaluating examples.\<close>

definition asciiLower :: "jsstring \<Rightarrow> jsstring" where
  "asciiLower s = map (\<lambda>c. if 65 \<le> c \<and> c \<le> 90 then c + 32 else c) s"

section \<open>The takeaway generator (generateTakeaway, scripts/fetch-rss.js)\<close>

text \<open>
  What the summarization request did is an input of the model: \<open>fetch\<close> rejected
  (transport error, timeout, abort), or \<open>response.json()\<close> rejected (the body is not
  JSON), or the body parsed to a JSON value.  The status of the response is not looked
  at by \<open>generateTakeaway\<close>.  In a JSON value, \<open>None\<close> stands for \<open>undefined\<close>; an
  object lists its properties, each key once; of a number only whether it is zero matters.
\<close>

datatype json =
  JNull | JBool bool | JNum int | JStr jsstring | JArr "json list" | JObj "(jsstring \<times> json) list"

datatype js_error = TypeError | SyntaxError | NetworkError

datatype fetch_outcome = FetchRejected | BodyNotJson | BodyJson json

text \<open>
  \<open>x.k\<close> for the property names the script reads (\<open>candidates\<close>, \<open>content\<close>,
  \<open>parts\<close>, \<open>text\<close>): only an object can have them.  \<open>x[0]\<close>: the first element of
  an array, the first code unit of a string, the property \<open>"0"\<close> of an object.
  \<open>x?.k\<close> is \<open>undefined\<close> when \<open>x\<close> is \<open>undefined\<close> or \<open>null\<close>.
\<close>

fun getField :: "jsstring \<Rightarrow> json \<Rightarrow> json option" where
  "getField k (JObj kvs) = map_of kvs k"
| "getField k v = None"

fun getIndex0 :: "json \<Rightarrow> json option" where
  "getIndex0 (JArr xs) = (case xs of [] \<Rightarrow> None | x # rest \<Rightarrow> Some x)"
| "getIndex0 (JStr s) = (case s of [] \<Rightarrow> None | c # rest \<Rightarrow> Some (JStr [c]))"
| "getIndex0 (JObj kvs) = map_of kvs (str ''0'')"
| "getIndex0 v = None"

definition optChain :: "(json \<Rightarrow> json option) \<Rightarrow> json option \<Rightarrow> json option" where
  "optChain f v = (case v of None \<Rightarrow> None | Some JNull \<Rightarrow> None | Some x \<Rightarrow> f x)"

fun truthy :: "json option \<Rightarrow> bool" where
  "truthy None = False"
| "truthy (Some JNull) = False"
| "truthy (Some (JBool b)) = b"
| "truthy (Some (JNum n)) = (n \<noteq> 0)"
| "truthy (Some (JStr s)) = (s \<noteq> [])"
| "truthy (Some (JArr xs)) = True"
| "truthy (Some (JObj kvs)) = True"

text \<open>
  The two statements of the \<open>try\<close> block behind \<open>response.json()\<close>: \<open>Inl\<close> is a
  throw (reading \<open>candidates\<close> of \<open>null\<close>, calling \<open>trim\<close> on what is not a string),
  \<open>Inr None\<close> is falling out of the \<open>if\<close>, \<open>Inr (Some t)\<close> is \<open>return t\<close>.
\<close>

definition candidateText :: "json \<Rightarrow> json option" where
  "candidateText data =
     optChain (getField (str ''text''))
       (optChain getIndex0
         (optChain (getField (str ''parts''))
           (optChain (getField (str ''content''))
             (optChain getIndex0 (getField (str ''candidates'') data)))))"

definition takeawayText :: "json \<Rightarrow> js_error + jsstring option" where
  "takeawayText data =
     (if data = JNull then Inl TypeError
      else if truthy (candidateText data)
      then (case candidateText data of
              Some (JStr s) \<Rightarrow> Inr (Some (trim s))
            | _ \<Rightarrow> Inl TypeError)
      else Inr None)"

definition tryTakeaway :: "fetch_outcome \<Rightarrow> js_error + jsstring option" where
  "tryTakeaway outcome =
     (case outcome of
        FetchRejected \<Rightarrow> Inl NetworkError
      | BodyNotJson \<Rightarrow> Inl SyntaxError
      | BodyJson data \<Rightarrow> takeawayText data)"

text \<open>
  \<open>generateTakeaway\<close>: without a key the fallback; otherwise the \<open>try\<close> block, whose
  \<open>catch\<close> only logs, and behind it the fallback.
\<close>

definition generateTakeaway ::
  "(jsstring \<Rightarrow> jsstring) \<Rightarrow> jsstring option \<Rightarrow> article \<Rightarrow> fetch_outcome \<Rightarrow> jsstring" where
  "generateTakeaway lower googleAiApiKey article outcome =
     (if orElse googleAiApiKey [] = [] then createFallbackTakeaway lower article
      else case tryTakeaway outcome of
             Inr (Some text) \<Rightarrow> text
           | Inr None \<Rightarrow> createFallbackTakeaway lower article
           | Inl error \<Rightarrow> createFallbackTakeaway lower article)"

text \<open>
  \<open>fetch-rss.js\<close> does not import the usage limiter, and no statement of
  \<open>generateTakeaway\<close> reads or writes the counter file: run next to the file, it
  returns the file as it was.
\<close>

definition generateTakeawayIO ::
  "(jsstring \<Rightarrow> jsstring) \<Rightarrow> jsstring option \<Rightarrow> article \<Rightarrow> fetch_outcome \<Rightarrow> counters_file
   \<Rightarrow> jsstring \<times> counters_file" where
  "generateTakeawayIO lower googleAiApiKey article outcome f =
     (generateTakeaway lower googleAiApiKey article outcome, f)"

section \<open>Manual articles and the merge (main, scripts/fetch-rss.js)\<close>

text \<open>
  An entry of \<open>manual.json\<close>; a field that may be left out is optional, and
  \<open>mDate\<close> is the instant of a well-formed date.  \<open>now\<close> is the time of the run.
\<close>

record manual_entry =
  mHeadline :: jsstring
  mBlurb :: "jsstring option"
  mSource :: "jsstring option"
  mUrl :: jsstring
  mDate :: "int option"
  mCategory :: "jsstring option"
  mPriority :: "jsstring option"
  mTakeaway :: "jsstring option"

definition formatManualArticle ::
  "(jsstring \<Rightarrow> jsstring) \<Rightarrow> int \<Rightarrow> manual_entry \<Rightarrow> article" where
  "formatManualArticle lower now entry =
     \<lparr>articleId = generateId (mHeadline entry) (mUrl entry),
      headline = mHeadline entry,
      blurb = orElse (mBlurb entry) [],
      source = \<lparr>name = orElse (mSource entry) (str ''Performance Aircraft''), url = mUrl entry\<rparr>,
      category = orElse (mCategory entry) (str ''industry''),
      publishedAt = (case mDate entry of Some d \<Rightarrow> d | None \<Rightarrow> now),
      takeaway = (case mTakeaway entry of
                    None \<Rightarrow> None
                  | Some t \<Rightarrow> if t = [] then None else Some t),
      keywords' = extractKeywords lower (mHeadline entry @ str '' '' @ orElse (mBlurb entry) []),
      priority = Some (orElse (mPriority entry) (str ''normal''))\<rparr>"

text \<open>
  \<open>allArticles.sort((a, b) => new Date(b.publishedAt) - new Date(a.publishedAt))\<close>:
  \<open>Array.prototype.sort\<close> is stable, so the result is the stable sort by descending
  date.
\<close>

definition sortByDateDesc :: "article list \<Rightarrow> article list" where
  "sortByDateDesc allArticles = sort_key (\<lambda>a. - publishedAt a) allArticles"

text \<open>The deduplication loop, on its state: the set \<open>seenUrls\<close> and the list \<open>deduped\<close>.\<close>

fun dedupLoop :: "article list \<Rightarrow> jsstring set \<times> article list \<Rightarrow> jsstring set \<times> article list" where
  "dedupLoop [] state = state"
| "dedupLoop (article # rest) (seenUrls, deduped) =
     (if url (source article) \<notin> seenUrls
      then dedupLoop rest (insert (url (source article)) seenUrls, deduped @ [article])
      else dedupLoop rest (seenUrls, deduped))"

text \<open>
  \<open>xs.slice(0, end)\<close>: a negative \<open>end\<close> counts from the end of the array.
  \<open>maxArticlesInTicker || 36\<close>: a setting that is absent or zero gives 36.
\<close>

definition jsSlice0 :: "int \<Rightarrow> 'a list \<Rightarrow> 'a list" where
  "jsSlice0 end xs =
     (if end < 0 then take (nat (int (length xs) + end)) xs else take (nat end) xs)"

definition maxArticlesOf :: "int option \<Rightarrow> int" where
  "maxArticlesOf maxArticlesInTicker =
     (case maxArticlesInTicker of None \<Rightarrow> 36 | Some n \<Rightarrow> if n = 0 then 36 else n)"

definition mergeArticles :: "int option \<Rightarrow> article list \<Rightarrow> article list \<Rightarrow> article list" where
  "mergeArticles maxArticlesInTicker allArticles formattedManualArticles =
     (let highPriorityManual =
            filter (\<lambda>a. priority a = Some (str ''high'')) formattedManualArticles;
          normalManual =
            filter (\<lambda>a. priority a \<noteq> Some (str ''high'')) formattedManualArticles;
          (seenUrls, deduped) = dedupLoop (sortByDateDesc allArticles) ({}, []);
          combinedArticles =
            highPriorityManual @ deduped
              @ filter (\<lambda>a. url (source a) \<notin> seenUrls) normalManual
      in jsSlice0 (maxArticlesOf maxArticlesInTicker) combinedArticles)"

text \<open>
  The words of the specification: of the articles that share a \<open>source.url\<close> the first
  stays and the later ones are dropped.
\<close>

fun keep_first_by_url :: "article list \<Rightarrow> article list" where
  "keep_first_by_url [] = []"
| "keep_first_by_url (a # rest) =
     a # filter (\<lambda>b. url (source b) \<noteq> url (source a)) (keep_first_by_url rest)"

section \<open>The run (generateHTML and main, scripts/fetch-rss.js)\<close>

text \<open>
  The loop of \<open>generateHTML\<close> assigns to every article the result of
  \<open>generateTakeaway\<close>; \<open>net i\<close> is what the request for the \<open>i\<close>-th article of the
  run does.  \<open>main\<close> leaves without writing when there is no article (\<open>None\<close>), and
  otherwise hands the processed articles to \<open>writeOutput\<close>, which writes the
  \<open>takeaway\<close> of each as it is.  \<open>allArticles\<close> is what the feeds gave.
\<close>

fun processArticles ::
  "(jsstring \<Rightarrow> jsstring) \<Rightarrow> jsstring option \<Rightarrow> (nat \<Rightarrow> fetch_outcome) \<Rightarrow> nat \<Rightarrow> article list
   \<Rightarrow> article list" where
  "processArticles lower key net i [] = []"
| "processArticles lower key net i (article # rest) =
     article\<lparr>takeaway := Some (generateTakeaway lower key article (net i))\<rparr>
       # processArticles lower key net (Suc i) rest"

definition main ::
  "(jsstring \<Rightarrow> jsstring) \<Rightarrow> jsstring option \<Rightarrow> (nat \<Rightarrow> fetch_outcome) \<Rightarrow> int \<Rightarrow> int option
   \<Rightarrow> article list \<Rightarrow> manual_entry list \<Rightarrow> article list option" where
  "main lower key net now maxArticlesInTicker allArticles manualArticles =
     (let formattedManualArticles = map (formatManualArticle lower now) manualArticles;
          finalArticles = mergeArticles maxArticlesInTicker allArticles formattedManualArticles
      in if finalArticles = [] then None
         else Some (processArticles lower key net 0 finalArticles))"

section \<open>The analyst brief (generateAnalystBrief, scripts/analyst-mode.js)\<close>

text \<open>
  What the request of \<open>generateAnalystBrief\<close> did: \<open>fetch\<close> rejected; or it resolved
  with a status that is not ok (the body then readable or not); or with an ok status,
  where \<open>response.json()\<close> rejected, or \<open>extractGeminiText\<close> threw, or returned
  \<open>null\<close>, or returned a text (an empty text is falsy and gives \<open>null\<close> like no text).  The \<open>try\<close> block is run on the counter file and the
  flag \<open>counted\<close>; its \<open>catch\<close> records the call when the flag is not set.
\<close>

datatype brief_outcome =
  BriefFetchRejected
| BriefHttpError bool
| BriefJsonRejected
| BriefExtractThrew
| BriefNoUsableText
| BriefText jsstring

definition tryAnalystBrief ::
  "jsstring \<Rightarrow> brief_outcome \<Rightarrow> counters_file \<Rightarrow> (js_error + jsstring option) \<times> bool \<times> counters_file" where
  "tryAnalystBrief today outcome f =
     (case outcome of
        BriefFetchRejected \<Rightarrow> (Inl NetworkError, False, f)
      | BriefHttpError readable \<Rightarrow> (Inr None, True, snd (recordGeminiCalls today (Fin 1) f))
      | BriefJsonRejected \<Rightarrow> (Inl SyntaxError, True, snd (recordGeminiCalls today (Fin 1) f))
      | BriefExtractThrew \<Rightarrow> (Inl TypeError, True, snd (recordGeminiCalls today (Fin 1) f))
      | BriefNoUsableText \<Rightarrow> (Inr None, True, snd (recordGeminiCalls today (Fin 1) f))
      | BriefText text \<Rightarrow>
          (Inr (if text = [] then None else Some text), True,
           snd (recordGeminiCalls today (Fin 1) f)))"

definition generateAnalystBrief ::
  "jsstring \<Rightarrow> jsstring option \<Rightarrow> brief_outcome \<Rightarrow> counters_file \<Rightarrow> jsstring option \<times> counters_file" where
  "generateAnalystBrief today apiKey outcome f =
     (if orElse apiKey [] = [] then (None, f)
      else case tryAnalystBrief today outcome f of
             (Inr brief, counted, f') \<Rightarrow> (brief, f')
           | (Inl error, counted, f') \<Rightarrow>
               (None, if \<not> counted then snd (recordGeminiCalls today (Fin 1) f') else f'))"

section \<open>Properties of the usage limiter\<close>

lemma toNumber_small: "n < 2 ^ 53 \<Longrightarrow> toNumber n = Some n"
  by (simp add: toNumber_def)

lemma bitLength_2_53: "bitLength 9007199254740992 = 54"
  by (simp add: bitLength.simps)

lemma toNumber_2_53: "toNumber (2 ^ 53) = Some (2 ^ 53)"
  by (simp add: toNumber_def bitLength_2_53 Let_def)

lemma representable_safe: "\<bar>k\<bar> \<le> 2 ^ 53 \<Longrightarrow> representable k"
proof -
  assume bound: "\<bar>k\<bar> \<le> 2 ^ 53"
  have "toNumber (nat \<bar>k\<bar>) = Some (nat \<bar>k\<bar>)"
  proof (cases "\<bar>k\<bar> = 2 ^ 53")
    case True
    then have "nat \<bar>k\<bar> = 2 ^ 53" by simp
    then show ?thesis by (simp only: toNumber_2_53)
  next
    case False
    with bound have "nat \<bar>k\<bar> < 2 ^ 53" by simp
    then show ?thesis by (rule toNumber_small)
  qed
  then show ?thesis
    by (simp add: representable_def roundInt_def)
qed

lemma roundInt_exact: "representable k \<Longrightarrow> roundInt k = Fin k"
  by (simp add: representable_def)

lemma bitLength_2_53_1: "bitLength 9007199254740993 = 54"
  by (simp add: bitLength.simps)

lemma round_2_53_1: "roundInt 9007199254740993 = Fin 9007199254740992"
  by (simp add: roundInt_def toNumber_def bitLength_2_53_1 Let_def)


lemma loadCounters_date: "date (loadCounters today f) = today"
  by (simp add: loadCounters_def split: counters_file.splits)

lemma loadCounters_well_formed:
  "well_formed_today today f \<Longrightarrow>
   toNumeric (geminiCallsToday (loadCounters today f)) = Fin (todays_count today f)"
  by (auto simp: well_formed_today_def loadCounters_def todays_count_def toNumeric_def
      split: counters_file.splits count_value.splits jsnum.splits)

lemma loadCounters_stale:
  "date c \<noteq> today \<Longrightarrow>
   loadCounters today (Stored c) = \<lparr>date = today, geminiCallsToday = CountNumber (Fin 0)\<rparr>"
  by (simp add: loadCounters_def)

lemma canSpendGemini_well_formed:
  assumes "well_formed_today today f" "representable (todays_count today f + callsNeeded)"
  shows "fst (canSpendGemini today (Fin callsNeeded) (Fin cap) f)
         \<longleftrightarrow> todays_count today f + callsNeeded \<le> cap"
  using assms
  by (simp add: canSpendGemini_def Let_def loadCounters_well_formed roundInt_exact)

lemma canSpendGemini_absent_count:
  "\<not> fst (canSpendGemini today callsNeeded cap
       (Stored \<lparr>date = today, geminiCallsToday = CountAbsent\<rparr>))"
  by (simp add: canSpendGemini_def loadCounters_def toNumeric_def)

lemma run_query_frame: "run_query (today, q) f = f"
  by (cases q) (simp_all add: canSpendGemini_def geminiCallsRemaining_def Let_def)

text \<open>
  Claim C3, as the code has it.  For a counter file that is missing, corrupt, dated
  another day, or holds an integer count for today, and integers \<open>callsNeeded\<close> and
  \<open>cap\<close> such that today's count plus \<open>callsNeeded\<close> is exactly a Number (as every
  integer up to \<open>2^53\<close> in magnitude is), \<open>canSpendGemini\<close> answers true exactly when
  today's count, after the day-rollover reset, plus \<open>callsNeeded\<close> stays within the cap.
  With cap 5 and four calls made today one more call fits and two do not; recording one
  call stores 5, and then no further call fits; a counter whose stored date is not the
  current UTC date is read as zero before the check.
\<close>

theorem canSpendGemini_spec:
  "(well_formed_today today f \<and> representable (todays_count today f + callsNeeded)
      \<longrightarrow> (fst (canSpendGemini today (Fin callsNeeded) (Fin cap) f)
            \<longleftrightarrow> todays_count today f + callsNeeded \<le> cap))
   \<and> (\<bar>k\<bar> \<le> 2 ^ 53 \<longrightarrow> representable k)
   \<and> fst (canSpendGemini today (Fin 1) (Fin 5) (Stored \<lparr>date = today, geminiCallsToday = CountNumber (Fin 4)\<rparr>))
   \<and> \<not> fst (canSpendGemini today (Fin 2) (Fin 5) (Stored \<lparr>date = today, geminiCallsToday = CountNumber (Fin 4)\<rparr>))
   \<and> recordGeminiCalls today (Fin 1) (Stored \<lparr>date = today, geminiCallsToday = CountNumber (Fin 4)\<rparr>)
       = (Fin 5, Stored \<lparr>date = today, geminiCallsToday = CountNumber (Fin 5)\<rparr>)
   \<and> \<not> fst (canSpendGemini today (Fin 1) (Fin 5)
         (snd (recordGeminiCalls today (Fin 1) (Stored \<lparr>date = today, geminiCallsToday = CountNumber (Fin 4)\<rparr>))))
   \<and> (date c \<noteq> today \<longrightarrow>
        loadCounters today (Stored c) = \<lparr>date = today, geminiCallsToday = CountNumber (Fin 0)\<rparr>
        \<and> (representable callsNeeded \<longrightarrow>
             (fst (canSpendGemini today (Fin callsNeeded) (Fin cap) (Stored c))
                \<longleftrightarrow> callsNeeded \<le> cap)))"
proof -
  have small: "representable 5" "representable 6"
    by (simp_all add: representable_safe)
  have four: "well_formed_today today (Stored \<lparr>date = today, geminiCallsToday = CountNumber (Fin 4)\<rparr>)"
    "todays_count today (Stored \<lparr>date = today, geminiCallsToday = CountNumber (Fin 4)\<rparr>) = 4"
    by (simp_all add: well_formed_today_def todays_count_def representable_safe)
  have one: "fst (canSpendGemini today (Fin 1) (Fin 5) (Stored \<lparr>date = today, geminiCallsToday = CountNumber (Fin 4)\<rparr>))"
    using canSpendGemini_well_formed [of today "Stored \<lparr>date = today, geminiCallsToday = CountNumber (Fin 4)\<rparr>" 1 5] four small by simp
  have two: "\<not> fst (canSpendGemini today (Fin 2) (Fin 5) (Stored \<lparr>date = today, geminiCallsToday = CountNumber (Fin 4)\<rparr>))"
    using canSpendGemini_well_formed [of today "Stored \<lparr>date = today, geminiCallsToday = CountNumber (Fin 4)\<rparr>" 2 5] four small by simp
  have recorded: "recordGeminiCalls today (Fin 1) (Stored \<lparr>date = today, geminiCallsToday = CountNumber (Fin 4)\<rparr>)
       = (Fin 5, Stored \<lparr>date = today, geminiCallsToday = CountNumber (Fin 5)\<rparr>)"
    using small(1) by (simp add: recordGeminiCalls_def Let_def loadCounters_def toNumeric_def
        saveCounters_def stringifyCount_def roundInt_exact)
  have five: "well_formed_today today (Stored \<lparr>date = today, geminiCallsToday = CountNumber (Fin 5)\<rparr>)"
    "todays_count today (Stored \<lparr>date = today, geminiCallsToday = CountNumber (Fin 5)\<rparr>) = 5"
    by (simp_all add: well_formed_today_def todays_count_def representable_safe)
  have full: "\<not> fst (canSpendGemini today (Fin 1) (Fin 5)
         (snd (recordGeminiCalls today (Fin 1) (Stored \<lparr>date = today, geminiCallsToday = CountNumber (Fin 4)\<rparr>))))"
    using canSpendGemini_well_formed [of today "Stored \<lparr>date = today, geminiCallsToday = CountNumber (Fin 5)\<rparr>" 1 5] five small
    by (simp add: recorded)
  have stale: "fst (canSpendGemini today (Fin callsNeeded) (Fin cap) (Stored c))
                \<longleftrightarrow> callsNeeded \<le> cap"
    if "date c \<noteq> today" "representable callsNeeded"
    using that canSpendGemini_well_formed [of today "Stored c" callsNeeded cap]
    by (simp add: well_formed_today_def todays_count_def)
  show ?thesis
    using canSpendGemini_well_formed [of today f callsNeeded cap] representable_safe [of k]
      one two recorded full loadCounters_stale [of c today] stale
    by blast
qed

theorem canSpendGemini_spec_witness:
  "well_formed_today (str ''2026-02-18'') (Stored \<lparr>date = str ''2026-02-18'', geminiCallsToday = CountNumber (Fin 7)\<rparr>)
   \<and> representable (todays_count (str ''2026-02-18'') (Stored \<lparr>date = str ''2026-02-18'', geminiCallsToday = CountNumber (Fin 7)\<rparr>) + 1)
   \<and> todays_count (str ''2026-02-18'') (Stored \<lparr>date = str ''2026-02-18'', geminiCallsToday = CountNumber (Fin 7)\<rparr>) = 7
   \<and> \<not> fst (canSpendGemini (str ''2026-02-18'') (Fin 1) (Fin 5) (Stored \<lparr>date = str ''2026-02-18'', geminiCallsToday = CountNumber (Fin 7)\<rparr>))
   \<and> fst (canSpendGemini (str ''2026-02-18'') (Fin 1) (Fin 8) (Stored \<lparr>date = str ''2026-02-18'', geminiCallsToday = CountNumber (Fin 7)\<rparr>))
   \<and> date \<lparr>date = str ''2026-02-18'', geminiCallsToday = CountNumber (Fin 7)\<rparr> \<noteq> str ''2026-02-19''
   \<and> loadCounters (str ''2026-02-19'') (Stored \<lparr>date = str ''2026-02-18'', geminiCallsToday = CountNumber (Fin 7)\<rparr>)
       = \<lparr>date = str ''2026-02-19'', geminiCallsToday = CountNumber (Fin 0)\<rparr>
   \<and> fst (canSpendGemini (str ''2026-02-19'') (Fin 5) (Fin 5) (Stored \<lparr>date = str ''2026-02-18'', geminiCallsToday = CountNumber (Fin 7)\<rparr>))"
proof -
  let ?f = "Stored \<lparr>date = str ''2026-02-18'', geminiCallsToday = CountNumber (Fin 7)\<rparr>"
  have wf: "well_formed_today (str ''2026-02-18'') ?f"
    by (simp add: well_formed_today_def representable_safe)
  have cnt: "todays_count (str ''2026-02-18'') ?f = 7"
    by (simp add: todays_count_def)
  have rep: "representable (todays_count (str ''2026-02-18'') ?f + 1)" "representable 5"
    by (simp_all add: cnt representable_safe)
  have stale: "date \<lparr>date = str ''2026-02-18'', geminiCallsToday = CountNumber (Fin 7)\<rparr> \<noteq> str ''2026-02-19''"
    by (simp add: str_def)
  from wf rep(1) canSpendGemini_spec [of "str ''2026-02-18''" ?f 1 5]
  have no: "\<not> fst (canSpendGemini (str ''2026-02-18'') (Fin 1) (Fin 5) ?f)"
    by (simp add: cnt)
  from wf rep(1) canSpendGemini_spec [of "str ''2026-02-18''" ?f 1 8]
  have yes: "fst (canSpendGemini (str ''2026-02-18'') (Fin 1) (Fin 8) ?f)"
    by (simp add: cnt)
  from stale rep(2) canSpendGemini_spec [of "str ''2026-02-19''" ?f 5 5 0 "\<lparr>date = str ''2026-02-18'', geminiCallsToday = CountNumber (Fin 7)\<rparr>"]
  have reset: "loadCounters (str ''2026-02-19'') ?f = \<lparr>date = str ''2026-02-19'', geminiCallsToday = CountNumber (Fin 0)\<rparr>"
    "fst (canSpendGemini (str ''2026-02-19'') (Fin 5) (Fin 5) ?f)"
    by simp_all
  from wf rep(1) cnt no yes stale reset show ?thesis by blast
qed

text \<open>
  The claim as it was stated, for every counter state, cap and number of calls, fails.
  The sum is a double: with \<open>2^53\<close> calls counted and a cap of \<open>2^53\<close>, one more call
  is allowed, since \<open>2^53 + 1\<close> rounds to \<open>2^53\<close>.  And a file that holds an object
  for today without a count is not read as zero calls: the sum is \<open>NaN\<close>, and no call
  is allowed, whatever the cap.
\<close>

theorem canSpendGemini_counterexample:
  "fst (canSpendGemini (str ''2026-02-19'') (Fin 1) (Fin (2 ^ 53))
         (Stored \<lparr>date = str ''2026-02-19'', geminiCallsToday = CountNumber (Fin (2 ^ 53))\<rparr>))
   \<and> \<not> (todays_count (str ''2026-02-19'')
            (Stored \<lparr>date = str ''2026-02-19'', geminiCallsToday = CountNumber (Fin (2 ^ 53))\<rparr>) + 1
          \<le> 2 ^ 53)
   \<and> \<not> fst (canSpendGemini (str ''2026-02-19'') (Fin 1) (Fin 5)
         (Stored \<lparr>date = str ''2026-02-19'', geminiCallsToday = CountAbsent\<rparr>))
   \<and> todays_count (str ''2026-02-19'') (Stored \<lparr>date = str ''2026-02-19'', geminiCallsToday = CountAbsent\<rparr>) + 1 \<le> 5"
  by (simp add: canSpendGemini_def loadCounters_def toNumeric_def todays_count_def round_2_53_1)

text \<open>
  Claim C10.  \<open>canSpendGemini\<close> and \<open>geminiCallsRemaining\<close> leave the counter file as
  it is: after any run of the two, at any dates, the file is the one before.  A rollover
  they observed is therefore not stored; the next \<open>recordGeminiCalls\<close> stores it,
  writing the new date with the count restarted from zero.
\<close>

theorem limiter_queries_frame:
  "run_queries qs f = f
   \<and> snd (canSpendGemini today callsNeeded cap f) = f
   \<and> snd (geminiCallsRemaining today cap f) = f
   \<and> (date c \<noteq> today \<longrightarrow>
        run_queries qs (Stored c) = Stored c
        \<and> snd (recordGeminiCalls today n (run_queries qs (Stored c)))
            = Stored \<lparr>date = today,
                geminiCallsToday = stringifyCount (CountNumber (jsAdd (Fin 0) n))\<rparr>
        \<and> (representable k \<longrightarrow>
             snd (recordGeminiCalls today (Fin k) (run_queries qs (Stored c)))
               = Stored \<lparr>date = today, geminiCallsToday = CountNumber (Fin k)\<rparr>))"
proof -
  have frame: "run_queries qs g = g" for g
    by (induction qs arbitrary: g) (auto simp: run_query_frame)
  have recorded: "snd (recordGeminiCalls today n (Stored c))
        = Stored \<lparr>date = today,
            geminiCallsToday = stringifyCount (CountNumber (jsAdd (Fin 0) n))\<rparr>"
    if "date c \<noteq> today" for n
    using that by (simp add: recordGeminiCalls_def saveCounters_def loadCounters_def Let_def
        toNumeric_def)
  have exact: "stringifyCount (CountNumber (jsAdd (Fin 0) (Fin k))) = CountNumber (Fin k)"
    if "representable k"
    using that by (simp add: roundInt_exact stringifyCount_def)
  show ?thesis
    using recorded [of n] recorded [of "Fin k"] exact
    by (simp add: frame canSpendGemini_def geminiCallsRemaining_def Let_def)
qed

theorem limiter_queries_frame_witness:
  "date \<lparr>date = str ''2026-02-18'', geminiCallsToday = CountNumber (Fin 7)\<rparr> \<noteq> str ''2026-02-19''
   \<and> representable 1
   \<and> run_queries [(str ''2026-02-19'', CanSpend (Fin 1) (Fin 5)), (str ''2026-02-19'', Remaining (Fin 5))]
        (Stored \<lparr>date = str ''2026-02-18'', geminiCallsToday = CountNumber (Fin 7)\<rparr>)
       = Stored \<lparr>date = str ''2026-02-18'', geminiCallsToday = CountNumber (Fin 7)\<rparr>
   \<and> snd (recordGeminiCalls (str ''2026-02-19'') (Fin 1)
        (run_queries [(str ''2026-02-19'', CanSpend (Fin 1) (Fin 5)), (str ''2026-02-19'', Remaining (Fin 5))]
          (Stored \<lparr>date = str ''2026-02-18'', geminiCallsToday = CountNumber (Fin 7)\<rparr>)))
       = Stored \<lparr>date = str ''2026-02-19'', geminiCallsToday = CountNumber (Fin 1)\<rparr>"
proof -
  have stale: "date \<lparr>date = str ''2026-02-18'', geminiCallsToday = CountNumber (Fin 7)\<rparr> \<noteq> str ''2026-02-19''"
    by (simp add: str_def)
  have rep: "representable 1"
    by (simp add: representable_safe)
  from stale rep limiter_queries_frame [of
      "[(str ''2026-02-19'', CanSpend (Fin 1) (Fin 5)), (str ''2026-02-19'', Remaining (Fin 5))]"
      "Stored \<lparr>date = str ''2026-02-18'', geminiCallsToday = CountNumber (Fin 7)\<rparr>"
      "str ''2026-02-19''" "Fin 1" "Fin 5"
      "\<lparr>date = str ''2026-02-18'', geminiCallsToday = CountNumber (Fin 7)\<rparr>" "Fin 1" 1]
  show ?thesis by blast
qed

section \<open>Properties of the article ids\<close>

lemma toInt32_sint: "toInt32 x = sint (word_of_int x :: 32 word)"
  by (simp add: toInt32_def int_word_sint)

lemma hashStep_word:
  "hashStep (sint (h :: 32 word)) c = sint ((push_bit 5 h - h) + of_nat c)"
proof -
  have eq: "(word_of_int (sint (word_of_int (sint h * 2 ^ 5) :: 32 word) - sint h + int c) :: 32 word)
        = (push_bit 5 h - h) + of_nat c"
    unfolding push_bit_eq_mult by simp
  have "hashStep (sint h) c
        = sint (word_of_int (sint (word_of_int (sint h * 2 ^ 5) :: 32 word) - sint h + int c) :: 32 word)"
    unfolding hashStep_def toInt32_sint ..
  then show ?thesis
    unfolding eq .
qed

lemma hashLoop_word:
  "hashLoop s (sint (h :: 32 word)) = sint (fold (\<lambda>c h. (push_bit 5 h - h) + of_nat c) s h)"
proof (induction s arbitrary: h)
  case Nil
  show ?case by simp
next
  case (Cons c s)
  have "hashLoop (c # s) (sint h) = hashLoop s (sint ((push_bit 5 h - h) + of_nat c))"
    by (simp only: hashLoop.simps hashStep_word)
  also have "\<dots> = sint (fold (\<lambda>c h. (push_bit 5 h - h) + of_nat c) s ((push_bit 5 h - h) + of_nat c))"
    by (rule Cons.IH)
  finally show ?case by simp
qed

lemma generateId_word:
  "generateId title link = toString36 (nat \<bar>sint (rolling_hash32 (title @ str ''-'' @ link))\<bar>)"
  using hashLoop_word [of "title @ str ''-'' @ link" 0]
  by (simp add: generateId_def rolling_hash32_def)

lemma base36_value_snoc: "base36_value (s @ [c]) = 36 * base36_value s + base36_digit_value c"
  by (simp add: base36_value_def)

lemma digit36_value: "d < 36 \<Longrightarrow> base36_digit_value (digit36 d) = d"
  by (simp add: base36_digit_value_def digit36_def)

lemma digit36_range: "d < 36 \<Longrightarrow> (48 \<le> digit36 d \<and> digit36 d \<le> 57) \<or> (97 \<le> digit36 d \<and> digit36 d \<le> 122)"
  by (simp add: digit36_def)

lemma base36_value_toString36: "base36_value (toString36 n) = n"
proof (induction n rule: toString36.induct)
  case (1 n)
  show ?case
  proof (cases "n < 36")
    case True
    then show ?thesis
      by (simp add: toString36.simps [of n] base36_value_def digit36_value)
  next
    case False
    with 1 show ?thesis
      by (simp add: toString36.simps [of n] base36_value_snoc digit36_value)
  qed
qed

lemma toString36_digits:
  "c \<in> set (toString36 n) \<Longrightarrow> (48 \<le> c \<and> c \<le> 57) \<or> (97 \<le> c \<and> c \<le> 122)"
proof (induction n rule: toString36.induct)
  case (1 n)
  show ?case
  proof (cases "n < 36")
    case True
    with "1.prems" digit36_range [of n] show ?thesis
      by (simp add: toString36.simps [of n])
  next
    case False
    have "n mod 36 < 36" by simp
    with False "1.prems" "1.IH" digit36_range [of "n mod 36"] show ?thesis
      by (auto simp: toString36.simps [of n])
  qed
qed

text \<open>
  Claim C6.  The id of a title and a link is the rolling hash on 32-bit words (shift
  left by five, minus the hash, plus the code unit) of the string title, hyphen, link,
  read as a signed value, without its sign, written in base 36: the id is a string of the
  digits \<open>0-9a-z\<close> that denotes this number.  Equal titles and links have equal ids.
\<close>

theorem generateId_spec:
  "generateId title link = toString36 (nat \<bar>sint (rolling_hash32 (title @ str ''-'' @ link))\<bar>)
   \<and> base36_value (generateId title link) = nat \<bar>sint (rolling_hash32 (title @ str ''-'' @ link))\<bar>
   \<and> (\<forall>c \<in> set (generateId title link). (48 \<le> c \<and> c \<le> 57) \<or> (97 \<le> c \<and> c \<le> 122))
   \<and> (title' = title \<and> link' = link \<longrightarrow> generateId title' link' = generateId title link)"
proof -
  have id: "generateId title link = toString36 (nat \<bar>sint (rolling_hash32 (title @ str ''-'' @ link))\<bar>)"
    by (rule generateId_word)
  have digits: "\<forall>c \<in> set (generateId title link). (48 \<le> c \<and> c \<le> 57) \<or> (97 \<le> c \<and> c \<le> 122)"
    unfolding id using toString36_digits by blast
  show ?thesis
    using id digits by (simp add: base36_value_toString36)
qed

theorem generateId_spec_witness:
  "str ''FAA rule'' = str ''FAA rule'' \<and> str ''https://faa.gov/r'' = str ''https://faa.gov/r''
   \<and> generateId (str ''FAA rule'') (str ''https://faa.gov/r'') = str ''e3banx''
   \<and> sint (rolling_hash32 (str ''FAA rule'' @ str ''-'' @ str ''https://faa.gov/r'')) = - 852092349
   \<and> base36_value (str ''e3banx'') = 852092349"
proof -
  have val: "generateId (str ''FAA rule'') (str ''https://faa.gov/r'') = str ''e3banx''"
    by (simp add: generateId_def str_def hashStep_def toInt32_def toString36.simps digit36_def)
  have hash: "sint (rolling_hash32 (str ''FAA rule'' @ str ''-'' @ str ''https://faa.gov/r'')) = - 852092349"
    by (simp add: rolling_hash32_def str_def)
  from generateId_spec [of "str ''FAA rule''" "str ''https://faa.gov/r''" "str ''FAA rule''"
      "str ''https://faa.gov/r''"]
  have "base36_value (generateId (str ''FAA rule'') (str ''https://faa.gov/r''))
        = nat \<bar>sint (rolling_hash32 (str ''FAA rule'' @ str ''-'' @ str ''https://faa.gov/r''))\<bar>"
    by blast
  then have "base36_value (str ''e3banx'') = 852092349"
    unfolding val hash by simp
  with val hash show ?thesis by simp
qed

section \<open>Properties of the text cleaning\<close>

lemma replaceAllBy_numeral:
  "replaceAllBy m (numeral k) (c # cs) = replaceAllBy m (pred_numeral k) cs"
  by (simp add: numeral_eq_Suc)

lemma replaceAllBy_no_match:
  "(\<And>t. suffix t s \<Longrightarrow> m t = None) \<Longrightarrow> replaceAllBy m 0 s = s"
proof (induction s)
  case Nil
  show ?case by simp
next
  case (Cons c cs)
  have here: "m (c # cs) = None"
    by (rule Cons.prems) simp
  have rest: "replaceAllBy m 0 cs = cs"
  proof (rule Cons.IH)
    fix t
    assume "suffix t cs"
    then have "suffix t (c # cs)" by (rule suffix_ConsI)
    then show "m t = None" by (rule Cons.prems)
  qed
  show ?case
    by (simp add: here rest)
qed

lemma replaceAll_no_match:
  "(\<And>t. suffix t s \<Longrightarrow> m t = None) \<Longrightarrow> replaceAll m s = s"
  unfolding replaceAll_def by (rule replaceAllBy_no_match)

lemma fold_literals_no_match:
  "(\<And>p r t. (p, r) \<in> set es \<Longrightarrow> suffix t s \<Longrightarrow> \<not> prefix p t)
   \<Longrightarrow> fold (\<lambda>(p, r). replaceAll (matchLiteral p r)) es s = s"
proof (induction es)
  case Nil
  show ?case by simp
next
  case (Cons e es)
  obtain p r where e: "e = (p, r)" by (cases e)
  have "replaceAll (matchLiteral p r) s = s"
  proof (rule replaceAll_no_match)
    fix t
    assume "suffix t s"
    with Cons.prems [of p r t] e show "matchLiteral p r t = None"
      by (simp add: matchLiteral_def)
  qed
  moreover have "fold (\<lambda>(p, r). replaceAll (matchLiteral p r)) es s = s"
  proof (rule Cons.IH)
    fix p r t
    assume "(p, r) \<in> set es" "suffix t s"
    with Cons.prems [of p r t] show "\<not> prefix p t" by simp
  qed
  ultimately show ?case
    by (simp add: e)
qed

lemma clean_suffix:
  assumes "\<not> hasEntity s" "suffix t s"
  shows "matchDecEntity t = None" "matchHexEntity t = None"
    "(p, r) \<in> set namedEntities \<Longrightarrow> \<not> prefix p t"
proof -
  from assms have "\<not> entityAt t"
    by (auto simp: hasEntity_def)
  then have parts: "matchDecEntity t = None \<and> matchHexEntity t = None
      \<and> (\<forall>(p, r) \<in> set namedEntities. \<not> prefix p t)"
    unfolding entityAt_def by blast
  from parts show "matchDecEntity t = None" by blast
  from parts show "matchHexEntity t = None" by blast
  from parts show "(p, r) \<in> set namedEntities \<Longrightarrow> \<not> prefix p t" by blast
qed

lemma decode_clean: "\<not> hasEntity s \<Longrightarrow> decodeHtmlEntities s = s"
proof -
  assume clean: "\<not> hasEntity s"
  have dec: "replaceAll matchDecEntity s = s"
    by (rule replaceAll_no_match) (rule clean_suffix(1) [OF clean])
  have hex: "replaceAll matchHexEntity s = s"
    by (rule replaceAll_no_match) (rule clean_suffix(2) [OF clean])
  have named: "fold (\<lambda>(p, r). replaceAll (matchLiteral p r)) namedEntities s = s"
    by (rule fold_literals_no_match) (rule clean_suffix(3) [OF clean])
  show ?thesis
    by (simp add: decodeHtmlEntities_def dec hex named)
qed

lemma entityAt_ampersand: "entityAt t \<Longrightarrow> 38 \<in> set t"
proof (cases t)
  case Nil
  assume "entityAt t"
  with Nil show ?thesis
    by (simp add: entityAt_def matchDecEntity_def matchHexEntity_def namedEntities_def str_def)
next
  case (Cons c cs)
  assume "entityAt t"
  with Cons have "c = 38"
    by (auto simp: entityAt_def matchDecEntity_def matchHexEntity_def namedEntities_def str_def
        split: if_splits)
  with Cons show ?thesis by simp
qed

lemma no_ampersand_clean: "38 \<notin> set s \<Longrightarrow> \<not> hasEntity s"
proof
  assume no: "38 \<notin> set s" and "hasEntity s"
  then obtain t where t: "t \<in> set (suffixes s)" "entityAt t"
    by (auto simp: hasEntity_def)
  from t(1) have "suffix t s" by (simp add: in_set_suffixes)
  then have "set t \<subseteq> set s" by (rule set_mono_suffix)
  with entityAt_ampersand [OF t(2)] no show False by blast
qed

text \<open>
  What does hold of \<open>decodeHtmlEntities\<close>: a string in which no entity starts, in
  particular one without an ampersand, is returned as it is, and \<open>&amp;amp;\<close> gives
  \<open>&amp;\<close>.
\<close>

lemma decodeHtmlEntities_clean:
  "(\<not> hasEntity s \<longrightarrow>
      decodeHtmlEntities s = s \<and> decodeHtmlEntities (decodeHtmlEntities s) = decodeHtmlEntities s)
   \<and> (38 \<notin> set s \<longrightarrow> decodeHtmlEntities s = s)
   \<and> decodeHtmlEntities (str ''&amp;amp;'') = str ''&amp;''"
proof -
  have amp: "decodeHtmlEntities (str ''&amp;amp;'') = str ''&amp;''"
    by (simp add: decodeHtmlEntities_def str_def replaceAll_def namedEntities_def matchLiteral_def
        matchDecEntity_def matchHexEntity_def isDigit_def)
  show ?thesis
    using decode_clean [of s] no_ampersand_clean [of s] amp by simp
qed

lemma decode_single_pass_clean: "\<not> hasEntity s \<Longrightarrow> decode_single_pass s = s"
proof -
  assume clean: "\<not> hasEntity s"
  have "matchEntity t = None" if "suffix t s" for t
  proof -
    have "find (\<lambda>(p, r). prefix p t) namedEntities = None"
      using clean_suffix(3) [OF clean that] by (auto simp: find_None_iff)
    then show ?thesis
      by (simp add: matchEntity_def clean_suffix(1,2) [OF clean that])
  qed
  then show ?thesis
    unfolding decode_single_pass_def by (rule replaceAll_no_match)
qed

text \<open>
  Claim C7.  Decoding is not a single pass: the replacements run one after the other,
  each on what the earlier ones wrote.  So \<open>&amp;lt;\<close>, which one pass decodes to
  \<open>&lt;\<close>, is decoded to \<open><\<close>: the pass for \<open>&amp;\<close> writes \<open>&lt;\<close> and the
  pass for \<open>&lt;\<close> decodes it again.  In the same way \<open>&#38;amp;\<close>, which one pass
  decodes to \<open>&amp;\<close>, gives \<open>&\<close>.
\<close>

theorem decodeHtmlEntities_second_pass:
  "decodeHtmlEntities (str ''&amp;lt;'') = str ''<''
   \<and> decode_single_pass (str ''&amp;lt;'') = str ''&lt;''
   \<and> decodeHtmlEntities (str ''&#38;amp;'') = str ''&''
   \<and> decode_single_pass (str ''&#38;amp;'') = str ''&amp;''"
proof -
  have named: "decodeHtmlEntities (str ''&amp;lt;'') = str ''<''"
    by (simp add: decodeHtmlEntities_def str_def replaceAll_def namedEntities_def
        matchLiteral_def matchDecEntity_def matchHexEntity_def isDigit_def)
  have named_once: "decode_single_pass (str ''&amp;lt;'') = str ''&lt;''"
    by (simp add: decode_single_pass_def matchEntity_def str_def replaceAll_def
        namedEntities_def matchDecEntity_def matchHexEntity_def isDigit_def)
  have dec_pass: "replaceAll matchDecEntity (str ''&#38;amp;'') = str ''&amp;''"
    by (simp add: str_def replaceAll_def matchDecEntity_def isDigit_def fromCharCode_def
        toNumber_def parseDigits_def digitValue_def replaceAllBy_numeral)
  have hex_pass: "replaceAll matchHexEntity (str ''&amp;'') = str ''&amp;''"
    by (simp add: str_def replaceAll_def matchHexEntity_def)
  have named_pass:
    "fold (\<lambda>(p, r). replaceAll (matchLiteral p r)) namedEntities (str ''&amp;'') = str ''&''"
    by (simp add: str_def replaceAll_def namedEntities_def matchLiteral_def)
  have "str ''&#38;amp;'' \<noteq> []"
    by (simp add: str_def)
  then have numeric: "decodeHtmlEntities (str ''&#38;amp;'') = str ''&''"
    by (simp add: decodeHtmlEntities_def dec_pass hex_pass named_pass)
  have numeric_once: "decode_single_pass (str ''&#38;amp;'') = str ''&amp;''"
    by (simp add: decode_single_pass_def matchEntity_def str_def replaceAll_def
        namedEntities_def matchDecEntity_def matchHexEntity_def isDigit_def fromCharCode_def
        toNumber_def parseDigits_def digitValue_def replaceAllBy_numeral)
  from named named_once numeric numeric_once show ?thesis by blast
qed

lemma length_cleanDescription: "length (cleanDescription description) \<le> 300"
  by (simp add: cleanDescription_def Let_def str_def)

lemma cleanHeadline_absent: "cleanHeadline [] = str ''Aviation News''"
  by (simp add: cleanHeadline_def)

text \<open>
  Claim C5.  The blurb has at most 300 code units (lemma \<open>length_cleanDescription\<close>),
  and an absent title gives the placeholder (lemma \<open>cleanHeadline_absent\<close>).  The
  headline, however, can be empty: the placeholder is chosen before the title is cleaned,
  and a title of markup only, here \<open><b></b>\<close>, is cleaned to the empty string.
\<close>

theorem cleanHeadline_markup_only:
  "cleanHeadline (str ''<b></b>'') = []"
  by (simp add: cleanHeadline_def decodeHtmlEntities_def str_def replaceAll_def matchTag_def trim_def)

section \<open>Properties of the fallback takeaway\<close>

lemma all_less_5: "(\<forall>j < (5::nat). P j) \<longleftrightarrow> P 0 \<and> P 1 \<and> P 2 \<and> P 3 \<and> P 4"
proof
  assume "\<forall>j < 5. P j"
  then show "P 0 \<and> P 1 \<and> P 2 \<and> P 3 \<and> P 4" by simp
next
  assume a: "P 0 \<and> P 1 \<and> P 2 \<and> P 3 \<and> P 4"
  show "\<forall>j < 5. P j"
  proof (intro allI impI)
    fix j :: nat
    assume "j < 5"
    then have "j = 0 \<or> j = 1 \<or> j = 2 \<or> j = 3 \<or> j = 4" by arith
    with a show "P j" by blast
  qed
qed

lemma cascade_first_match: "createFallbackTakeaway lower a = first_matching_rule lower a"
  by (simp add: createFallbackTakeaway_def first_matching_rule_def fallbackRules_def
      ruleMatches_def orElse_def Let_def)

text \<open>
  Claim C8.  The cascade of \<open>createFallbackTakeaway\<close> returns the sentence of the
  first rule of the table, in its order, that matches.  So an article of category
  \<open>safety\<close>, or whose lowercased headline and blurb contain \<open>safety\<close>, \<open>crash\<close> or
  \<open>incident\<close>, gets the safety sentence; an article that no rule matches gets the
  generic sentence; and a rule that matches while no earlier one does gives its sentence.
\<close>

theorem createFallbackTakeaway_cascade:
  "createFallbackTakeaway lower a = first_matching_rule lower a
   \<and> (category a = str ''safety''
        \<or> jsIncludes (lower (headline a @ str '' '' @ blurb a)) (str ''safety'')
        \<or> jsIncludes (lower (headline a @ str '' '' @ blurb a)) (str ''crash'')
        \<or> jsIncludes (lower (headline a @ str '' '' @ blurb a)) (str ''incident'')
      \<longrightarrow> createFallbackTakeaway lower a = str ''Safety implications warrant industry attention.'')
   \<and> ((\<forall>rule \<in> set fallbackRules.
          \<not> ruleMatches (category a) (lower (headline a @ str '' '' @ blurb a)) rule)
      \<longrightarrow> createFallbackTakeaway lower a = str ''Industry developments to monitor closely.'')
   \<and> (i < length fallbackRules
        \<and> ruleMatches (category a) (lower (headline a @ str '' '' @ blurb a)) (fallbackRules ! i)
        \<and> (\<forall>j < i. \<not> ruleMatches (category a) (lower (headline a @ str '' '' @ blurb a))
                      (fallbackRules ! j))
      \<longrightarrow> createFallbackTakeaway lower a = snd (snd (fallbackRules ! i)))"
proof -
  let ?text = "lower (headline a @ str '' '' @ blurb a)"
  let ?P = "ruleMatches (category a) ?text"
  have safety: "category a = str ''safety'' \<or> jsIncludes ?text (str ''safety'')
        \<or> jsIncludes ?text (str ''crash'') \<or> jsIncludes ?text (str ''incident'')
      \<Longrightarrow> createFallbackTakeaway lower a = str ''Safety implications warrant industry attention.''"
    by (simp add: createFallbackTakeaway_def orElse_def Let_def)
  have none: "createFallbackTakeaway lower a = str ''Industry developments to monitor closely.''"
    if "\<forall>rule \<in> set fallbackRules. \<not> ?P rule"
  proof -
    from that have "find ?P fallbackRules = None"
      by (simp add: find_None_iff)
    then show ?thesis
      by (simp add: cascade_first_match first_matching_rule_def)
  qed
  have first: "createFallbackTakeaway lower a = snd (snd (fallbackRules ! i))"
    if "i < length fallbackRules" "?P (fallbackRules ! i)" "\<forall>j < i. \<not> ?P (fallbackRules ! j)"
  proof -
    from that have "find ?P fallbackRules = Some (fallbackRules ! i)"
      unfolding find_Some_iff by blast
    then show ?thesis
      by (simp add: cascade_first_match first_matching_rule_def split: prod.splits)
  qed
  show ?thesis
    using cascade_first_match [of lower a] safety none first by blast
qed

theorem createFallbackTakeaway_cascade_witness:
  "jsIncludes (asciiLower (str ''Boeing crash probe'' @ str '' '' @ [])) (str ''crash'')
   \<and> createFallbackTakeaway asciiLower
        \<lparr>articleId = [], headline = str ''Boeing crash probe'', blurb = [], source = \<lparr>name = [], url = []\<rparr>,
      category = str ''commercial'', publishedAt = 0, takeaway = None, keywords' = [], priority = None\<rparr>
       = str ''Safety implications warrant industry attention.''
   \<and> createFallbackTakeaway asciiLower
        \<lparr>articleId = [], headline = str ''Quarterly results'', blurb = [], source = \<lparr>name = [], url = []\<rparr>,
      category = str ''industry'', publishedAt = 0, takeaway = None, keywords' = [], priority = None\<rparr>
       = str ''Industry developments to monitor closely.''
   \<and> createFallbackTakeaway asciiLower
        \<lparr>articleId = [], headline = str ''Boeing wins airline order'', blurb = [], source = \<lparr>name = [], url = []\<rparr>,
      category = str ''commercial'', publishedAt = 0, takeaway = None, keywords' = [], priority = None\<rparr>
       = str ''Boeing developments impact global aviation supply chain.''"
proof -
  let ?a1 = "\<lparr>articleId = [], headline = str ''Boeing crash probe'', blurb = [], source = \<lparr>name = [], url = []\<rparr>,
      category = str ''commercial'', publishedAt = 0, takeaway = None, keywords' = [], priority = None\<rparr>"
  let ?a2 = "\<lparr>articleId = [], headline = str ''Quarterly results'', blurb = [], source = \<lparr>name = [], url = []\<rparr>,
      category = str ''industry'', publishedAt = 0, takeaway = None, keywords' = [], priority = None\<rparr>"
  let ?a3 = "\<lparr>articleId = [], headline = str ''Boeing wins airline order'', blurb = [], source = \<lparr>name = [], url = []\<rparr>,
      category = str ''commercial'', publishedAt = 0, takeaway = None, keywords' = [], priority = None\<rparr>"
  have crash: "jsIncludes (asciiLower (str ''Boeing crash probe'' @ str '' '' @ [])) (str ''crash'')"
    by (simp add: asciiLower_def str_def)
  then have "jsIncludes (asciiLower (headline ?a1 @ str '' '' @ blurb ?a1)) (str ''crash'')"
    by simp
  with createFallbackTakeaway_cascade [of asciiLower ?a1]
  have r1: "createFallbackTakeaway asciiLower ?a1 = str ''Safety implications warrant industry attention.''"
    by blast
  have "\<forall>rule \<in> set fallbackRules.
          \<not> ruleMatches (category ?a2) (asciiLower (headline ?a2 @ str '' '' @ blurb ?a2)) rule"
    by (simp add: asciiLower_def str_def fallbackRules_def ruleMatches_def)
  with createFallbackTakeaway_cascade [of asciiLower ?a2]
  have r2: "createFallbackTakeaway asciiLower ?a2 = str ''Industry developments to monitor closely.''"
    by blast
  have "5 < length fallbackRules
        \<and> ruleMatches (category ?a3) (asciiLower (headline ?a3 @ str '' '' @ blurb ?a3)) (fallbackRules ! 5)
        \<and> (\<forall>j < 5. \<not> ruleMatches (category ?a3) (asciiLower (headline ?a3 @ str '' '' @ blurb ?a3))
                      (fallbackRules ! j))"
    by (simp add: asciiLower_def str_def fallbackRules_def ruleMatches_def all_less_5)
  with createFallbackTakeaway_cascade [of asciiLower ?a3 5]
  have "createFallbackTakeaway asciiLower ?a3 = snd (snd (fallbackRules ! 5))"
    by blast
  then have r3: "createFallbackTakeaway asciiLower ?a3
      = str ''Boeing developments impact global aviation supply chain.''"
    by (simp add: fallbackRules_def)
  from crash r1 r2 r3 show ?thesis by blast
qed

section \<open>Properties of the takeaway generator\<close>

lemma generateTakeaway_cases:
  "generateTakeaway lower key a outcome =
     (if orElse key [] = [] then createFallbackTakeaway lower a
      else case outcome of
             BodyJson d \<Rightarrow>
               (case candidateText d of
                  Some (JStr s) \<Rightarrow> if d \<noteq> JNull \<and> s \<noteq> [] then trim s else createFallbackTakeaway lower a
                | _ \<Rightarrow> createFallbackTakeaway lower a)
           | _ \<Rightarrow> createFallbackTakeaway lower a)"
  by (simp add: generateTakeaway_def tryTakeaway_def takeawayText_def
      split: fetch_outcome.splits option.splits json.splits)

text \<open>
  Where \<open>generateTakeaway\<close> does fall back: when the request is rejected (transport
  error, timeout), when the body is not JSON, and when the parsed body holds no non-empty
  string at \<open>candidates[0].content.parts[0].text\<close> (such as \<open>null\<close>, \<open>{}\<close>, an
  empty candidate list or an error object).  It returns a string in every case: the
  \<open>catch\<close> keeps every error of the \<open>try\<close> block.
\<close>

lemma generateTakeaway_failure_fallback:
  "generateTakeaway lower key a FetchRejected = createFallbackTakeaway lower a
   \<and> generateTakeaway lower key a BodyNotJson = createFallbackTakeaway lower a
   \<and> ((\<forall>s. candidateText d = Some (JStr s) \<longrightarrow> s = [])
        \<longrightarrow> generateTakeaway lower key a (BodyJson d) = createFallbackTakeaway lower a)
   \<and> generateTakeaway lower key a (BodyJson JNull) = createFallbackTakeaway lower a
   \<and> generateTakeaway lower key a (BodyJson (JObj [])) = createFallbackTakeaway lower a
   \<and> generateTakeaway lower key a (BodyJson (JObj [(str ''candidates'', JArr [])]))
        = createFallbackTakeaway lower a
   \<and> generateTakeaway lower key a (BodyJson (JObj [(str ''error'', JObj [(str ''code'', JNum 429)])]))
        = createFallbackTakeaway lower a"
proof -
  have general: "generateTakeaway lower key a (BodyJson d) = createFallbackTakeaway lower a"
    if "\<forall>s. candidateText d = Some (JStr s) \<longrightarrow> s = []" for d
    using that by (simp add: generateTakeaway_cases split: option.splits json.splits)
  have shapes: "candidateText JNull = None" "candidateText (JObj []) = None"
    "candidateText (JObj [(str ''candidates'', JArr [])]) = None"
    "candidateText (JObj [(str ''error'', JObj [(str ''code'', JNum 429)])]) = None"
    by (simp_all add: candidateText_def optChain_def str_def)
  show ?thesis
    using general [of d] general [of JNull] general [of "JObj []"]
      general [of "JObj [(str ''candidates'', JArr [])]"]
      general [of "JObj [(str ''error'', JObj [(str ''code'', JNum 429)])]"]
    by (simp add: shapes generateTakeaway_cases)
qed

lemma generateTakeaway_failure_fallback_example:
  "candidateText (JObj [(str ''candidates'', JArr [JObj [(str ''content'', JObj [(str ''parts'', JArr [JObj [(str ''text'', JStr [])]])])]])])
     = Some (JStr [])
   \<and> generateTakeaway asciiLower (Some (str ''key''))
        \<lparr>articleId = [], headline = str ''Boeing wins airline order'', blurb = [], source = \<lparr>name = [], url = []\<rparr>,
      category = str ''commercial'', publishedAt = 0, takeaway = None, keywords' = [], priority = None\<rparr>
        (BodyJson (JObj [(str ''candidates'', JArr [JObj [(str ''content'', JObj [(str ''parts'', JArr [JObj [(str ''text'', JStr [])]])])]])]))
       = str ''Boeing developments impact global aviation supply chain.''
   \<and> generateTakeaway asciiLower (Some (str ''key''))
        \<lparr>articleId = [], headline = str ''Boeing wins airline order'', blurb = [], source = \<lparr>name = [], url = []\<rparr>,
      category = str ''commercial'', publishedAt = 0, takeaway = None, keywords' = [], priority = None\<rparr>
        FetchRejected
       = str ''Boeing developments impact global aviation supply chain.''"
proof -
  let ?a = "\<lparr>articleId = [], headline = str ''Boeing wins airline order'', blurb = [], source = \<lparr>name = [], url = []\<rparr>,
      category = str ''commercial'', publishedAt = 0, takeaway = None, keywords' = [], priority = None\<rparr>"
  let ?d = "JObj [(str ''candidates'', JArr [JObj [(str ''content'', JObj [(str ''parts'', JArr [JObj [(str ''text'', JStr [])]])])]])]"
  have shape: "candidateText ?d = Some (JStr [])"
    by (simp add: candidateText_def optChain_def str_def)
  then have empty: "\<forall>s. candidateText ?d = Some (JStr s) \<longrightarrow> s = []"
    by simp
  have fallback: "createFallbackTakeaway asciiLower ?a
      = str ''Boeing developments impact global aviation supply chain.''"
    by (simp add: createFallbackTakeaway_def orElse_def Let_def asciiLower_def str_def)
  from empty generateTakeaway_failure_fallback [of asciiLower "Some (str ''key'')" ?a ?d] fallback
  have "generateTakeaway asciiLower (Some (str ''key'')) ?a (BodyJson ?d)
          = str ''Boeing developments impact global aviation supply chain.''
        \<and> generateTakeaway asciiLower (Some (str ''key'')) ?a FetchRejected
          = str ''Boeing developments impact global aviation supply chain.''"
    by simp
  with shape show ?thesis by blast
qed

lemma generateTakeaway_text:
  "generateTakeaway lower (Some (str ''k'')) a
     (BodyJson (JObj [(str ''candidates'',
        JArr [JObj [(str ''content'', JObj [(str ''parts'', JArr [JObj [(str ''text'', JStr (str '' Fleet grows. ''))]])])]])]))
   = str ''Fleet grows.''"
  by (simp add: generateTakeaway_cases candidateText_def optChain_def str_def orElse_def trim_def isWhiteSpace_def)

text \<open>
  Claim C9.  An empty response is not always answered by the fallback.  The text is
  tested before it is trimmed, so a response whose text is white space only (here a
  space, a line feed, a space) passes the test, and \<open>generateTakeaway\<close> returns the
  empty string as the takeaway, where the rule cascade has a sentence for the article.
\<close>

theorem generateTakeaway_blank_text:
  "generateTakeaway asciiLower (Some (str ''key''))
     \<lparr>articleId = [], headline = str ''Boeing wins airline order'', blurb = [], source = \<lparr>name = [], url = []\<rparr>,
      category = str ''commercial'', publishedAt = 0, takeaway = None, keywords' = [], priority = None\<rparr>
     (BodyJson (JObj [(str ''candidates'', JArr [JObj [(str ''content'', JObj [(str ''parts'', JArr [JObj [(str ''text'', JStr [32, 10, 32])]])])]])]))
   = []
   \<and> createFallbackTakeaway asciiLower
     \<lparr>articleId = [], headline = str ''Boeing wins airline order'', blurb = [], source = \<lparr>name = [], url = []\<rparr>,
      category = str ''commercial'', publishedAt = 0, takeaway = None, keywords' = [], priority = None\<rparr>
   = str ''Boeing developments impact global aviation supply chain.''"
  by (simp add: generateTakeaway_cases candidateText_def optChain_def orElse_def trim_def
      isWhiteSpace_def createFallbackTakeaway_def Let_def asciiLower_def str_def)

section \<open>Properties of the merge\<close>

lemma filter_insert_seen:
  "filter (\<lambda>b. url (source b) \<notin> insert u seen) xs
   = filter (\<lambda>b. url (source b) \<notin> seen) (filter (\<lambda>b. url (source b) \<noteq> u) xs)"
  unfolding filter_filter by (rule filter_cong) auto

lemma dedupLoop_keep_first:
  "dedupLoop xs (seen, acc)
   = (seen \<union> (\<lambda>a. url (source a)) ` set xs,
      acc @ filter (\<lambda>a. url (source a) \<notin> seen) (keep_first_by_url xs))"
proof (induction xs arbitrary: seen acc)
  case Nil
  show ?case by simp
next
  case (Cons a rest)
  show ?case
  proof (cases "url (source a) \<in> seen")
    case True
    have "dedupLoop (a # rest) (seen, acc) = dedupLoop rest (seen, acc)"
      using True by simp
    also have "\<dots> = (seen \<union> (\<lambda>a. url (source a)) ` set rest,
        acc @ filter (\<lambda>a. url (source a) \<notin> seen) (keep_first_by_url rest))"
      by (rule Cons.IH)
    also have "seen \<union> (\<lambda>a. url (source a)) ` set rest
        = seen \<union> (\<lambda>a. url (source a)) ` set (a # rest)"
      using True by auto
    also have "filter (\<lambda>a. url (source a) \<notin> seen) (keep_first_by_url rest)
        = filter (\<lambda>a. url (source a) \<notin> seen) (keep_first_by_url (a # rest))"
      using True by (auto intro!: filter_cong)
    finally show ?thesis .
  next
    case False
    have "dedupLoop (a # rest) (seen, acc)
        = dedupLoop rest (insert (url (source a)) seen, acc @ [a])"
      using False by simp
    also have "\<dots> = (insert (url (source a)) seen \<union> (\<lambda>a. url (source a)) ` set rest,
        (acc @ [a]) @ filter (\<lambda>b. url (source b) \<notin> insert (url (source a)) seen)
                        (keep_first_by_url rest))"
      by (rule Cons.IH)
    also have "insert (url (source a)) seen \<union> (\<lambda>a. url (source a)) ` set rest
        = seen \<union> (\<lambda>a. url (source a)) ` set (a # rest)"
      by auto
    also have "(acc @ [a]) @ filter (\<lambda>b. url (source b) \<notin> insert (url (source a)) seen)
                        (keep_first_by_url rest)
        = acc @ filter (\<lambda>a. url (source a) \<notin> seen) (keep_first_by_url (a # rest))"
      using False by (simp add: filter_insert_seen)
    finally show ?thesis .
  qed
qed

lemma dedupLoop_initial:
  "dedupLoop xs ({}, []) = ((\<lambda>a. url (source a)) ` set xs, keep_first_by_url xs)"
  by (simp add: dedupLoop_keep_first)

lemma keep_first_subseq: "subseq (keep_first_by_url xs) xs"
proof (induction xs)
  case Nil
  show ?case by simp
next
  case (Cons a rest)
  have "subseq (filter (\<lambda>b. url (source b) \<noteq> url (source a)) (keep_first_by_url rest))
          (keep_first_by_url rest)"
    by simp
  from this Cons.IH
  have "subseq (filter (\<lambda>b. url (source b) \<noteq> url (source a)) (keep_first_by_url rest)) rest"
    by (rule subseq_order.trans)
  then show ?case by simp
qed

lemma keep_first_urls:
  "(\<lambda>a. url (source a)) ` set (keep_first_by_url xs) = (\<lambda>a. url (source a)) ` set xs"
proof (induction xs)
  case Nil
  show ?case by simp
next
  case (Cons a rest)
  have "(\<lambda>a. url (source a)) ` set (filter (\<lambda>b. url (source b) \<noteq> url (source a)) (keep_first_by_url rest))
        = (\<lambda>a. url (source a)) ` set (keep_first_by_url rest) - {url (source a)}"
    by auto
  then have "(\<lambda>a. url (source a)) ` set (keep_first_by_url (a # rest))
        = insert (url (source a)) ((\<lambda>a. url (source a)) ` set rest - {url (source a)})"
    by (simp add: Cons.IH)
  then show ?case by auto
qed

lemma keep_first_distinct: "distinct (map (\<lambda>a. url (source a)) (keep_first_by_url xs))"
proof (induction xs)
  case Nil
  show ?case by simp
next
  case (Cons a rest)
  have "distinct (map (\<lambda>a. url (source a))
          (filter (\<lambda>b. url (source b) \<noteq> url (source a)) (keep_first_by_url rest)))"
    using Cons.IH by (simp add: distinct_map_filter)
  then show ?case by auto
qed

lemma keep_first_is_first:
  "a \<in> set (keep_first_by_url xs) \<Longrightarrow> find (\<lambda>b. url (source b) = url (source a)) xs = Some a"
  by (induction xs) auto

lemma sortByDateDesc_sorted:
  "sorted_wrt (\<lambda>a b. publishedAt b \<le> publishedAt a) (sortByDateDesc xs)"
proof -
  have "sorted (map (\<lambda>a. - publishedAt a) (sortByDateDesc xs))"
    by (simp add: sortByDateDesc_def)
  then show ?thesis
    by (simp add: sorted_map)
qed

lemma jsSlice0_take: "0 \<le> n \<Longrightarrow> jsSlice0 n xs = take (nat n) xs"
  by (simp add: jsSlice0_def)

text \<open>
  Claim C4.  The merged list is the high-priority manual articles in their input order,
  then the feed articles sorted by descending date (a stable sort, so a permutation in
  which equal dates keep their order) of which, for every \<open>source.url\<close>, the first
  stays, then the manual articles of another priority whose URL no feed article has; the
  whole is cut after the configured maximum, 36 when none is configured.  When the
  high-priority articles are no more than the maximum, all of them lead the result.
\<close>

theorem mergeArticles_spec:
  "mergeArticles maxCfg rss manual
     = jsSlice0 (maxArticlesOf maxCfg)
         (filter (\<lambda>a. priority a = Some (str ''high'')) manual
          @ keep_first_by_url (sortByDateDesc rss)
          @ filter (\<lambda>a. priority a \<noteq> Some (str ''high'')
                        \<and> url (source a) \<notin> (\<lambda>a. url (source a)) ` set rss) manual)
   \<and> maxArticlesOf None = 36
   \<and> (0 < n \<longrightarrow>
        mergeArticles (Some n) rss manual
          = take (nat n)
              (filter (\<lambda>a. priority a = Some (str ''high'')) manual
               @ keep_first_by_url (sortByDateDesc rss)
               @ filter (\<lambda>a. priority a \<noteq> Some (str ''high'')
                             \<and> url (source a) \<notin> (\<lambda>a. url (source a)) ` set rss) manual)
        \<and> (length (filter (\<lambda>a. priority a = Some (str ''high'')) manual) \<le> nat n \<longrightarrow>
             prefix (filter (\<lambda>a. priority a = Some (str ''high'')) manual)
               (mergeArticles (Some n) rss manual)))
   \<and> mset (sortByDateDesc rss) = mset rss
   \<and> sorted_wrt (\<lambda>a b. publishedAt b \<le> publishedAt a) (sortByDateDesc rss)
   \<and> (\<forall>k. filter (\<lambda>a. publishedAt a = k) (sortByDateDesc rss) = filter (\<lambda>a. publishedAt a = k) rss)
   \<and> subseq (keep_first_by_url (sortByDateDesc rss)) (sortByDateDesc rss)
   \<and> distinct (map (\<lambda>a. url (source a)) (keep_first_by_url (sortByDateDesc rss)))
   \<and> (\<forall>a \<in> set (keep_first_by_url (sortByDateDesc rss)).
         find (\<lambda>b. url (source b) = url (source a)) (sortByDateDesc rss) = Some a)
   \<and> (\<lambda>a. url (source a)) ` set (keep_first_by_url (sortByDateDesc rss))
        = (\<lambda>a. url (source a)) ` set rss"
proof -
  let ?high = "filter (\<lambda>a. priority a = Some (str ''high'')) manual"
  let ?combined = "?high @ keep_first_by_url (sortByDateDesc rss)
          @ filter (\<lambda>a. priority a \<noteq> Some (str ''high'')
                        \<and> url (source a) \<notin> (\<lambda>a. url (source a)) ` set rss) manual"
  have urls: "(\<lambda>a. url (source a)) ` set (sortByDateDesc rss) = (\<lambda>a. url (source a)) ` set rss"
    by (simp add: sortByDateDesc_def)
  have merge: "mergeArticles maxCfg rss manual = jsSlice0 (maxArticlesOf maxCfg) ?combined" for maxCfg
    by (simp add: mergeArticles_def dedupLoop_initial urls conj_commute)
  have pos: "mergeArticles (Some n) rss manual = take (nat n) ?combined" if "0 < n"
    using that by (simp add: merge maxArticlesOf_def jsSlice0_def)
  have high: "prefix ?high (mergeArticles (Some n) rss manual)"
    if "0 < n" "length ?high \<le> nat n"
  proof -
    have "take (nat n) ?combined = ?high @ take (nat n - length ?high)
        (keep_first_by_url (sortByDateDesc rss)
          @ filter (\<lambda>a. priority a \<noteq> Some (str ''high'')
                        \<and> url (source a) \<notin> (\<lambda>a. url (source a)) ` set rss) manual)"
      using that(2) by simp
    then show ?thesis
      by (simp add: pos [OF that(1)])
  qed
  have stable: "filter (\<lambda>a. publishedAt a = k) (sortByDateDesc rss) = filter (\<lambda>a. publishedAt a = k) rss" for k
    using sort_key_stable [of "\<lambda>a. - publishedAt a" "- k" rss]
    by (simp add: sortByDateDesc_def)
  have perm: "mset (sortByDateDesc rss) = mset rss"
    by (simp add: sortByDateDesc_def)
  show ?thesis
    using merge [of maxCfg] pos high stable perm sortByDateDesc_sorted [of rss]
      keep_first_subseq [of "sortByDateDesc rss"] keep_first_distinct [of "sortByDateDesc rss"]
      keep_first_is_first [of _ "sortByDateDesc rss"] keep_first_urls [of "sortByDateDesc rss"] urls
    by (simp add: maxArticlesOf_def)
qed

theorem mergeArticles_spec_witness:
  "0 < (3::int)
   \<and> mergeArticles (Some 3)
       [\<lparr>articleId = [], headline = str ''r1'', blurb = [], source = \<lparr>name = [], url = str ''u1''\<rparr>,
       category = [], publishedAt = 10, takeaway = None, keywords' = [], priority = None\<rparr>,
      \<lparr>articleId = [], headline = str ''r2'', blurb = [], source = \<lparr>name = [], url = str ''u2''\<rparr>,
       category = [], publishedAt = 30, takeaway = None, keywords' = [], priority = None\<rparr>,
      \<lparr>articleId = [], headline = str ''r3'', blurb = [], source = \<lparr>name = [], url = str ''u1''\<rparr>,
       category = [], publishedAt = 20, takeaway = None, keywords' = [], priority = None\<rparr>]
       [\<lparr>articleId = [], headline = str ''m1'', blurb = [], source = \<lparr>name = [], url = str ''u2''\<rparr>,
       category = [], publishedAt = 40, takeaway = None, keywords' = [], priority = Some (str ''normal'')\<rparr>,
      \<lparr>articleId = [], headline = str ''h'', blurb = [], source = \<lparr>name = [], url = str ''uh''\<rparr>,
       category = [], publishedAt = 5, takeaway = None, keywords' = [], priority = Some (str ''high'')\<rparr>,
      \<lparr>articleId = [], headline = str ''m2'', blurb = [], source = \<lparr>name = [], url = str ''um''\<rparr>,
       category = [], publishedAt = 1, takeaway = None, keywords' = [], priority = Some (str ''normal'')\<rparr>]
     = [\<lparr>articleId = [], headline = str ''h'', blurb = [], source = \<lparr>name = [], url = str ''uh''\<rparr>,
       category = [], publishedAt = 5, takeaway = None, keywords' = [], priority = Some (str ''high'')\<rparr>,
      \<lparr>articleId = [], headline = str ''r2'', blurb = [], source = \<lparr>name = [], url = str ''u2''\<rparr>,
       category = [], publishedAt = 30, takeaway = None, keywords' = [], priority = None\<rparr>,
      \<lparr>articleId = [], headline = str ''r3'', blurb = [], source = \<lparr>name = [], url = str ''u1''\<rparr>,
       category = [], publishedAt = 20, takeaway = None, keywords' = [], priority = None\<rparr>]
   \<and> mergeArticles None
       [\<lparr>articleId = [], headline = str ''r1'', blurb = [], source = \<lparr>name = [], url = str ''u1''\<rparr>,
       category = [], publishedAt = 10, takeaway = None, keywords' = [], priority = None\<rparr>,
      \<lparr>articleId = [], headline = str ''r2'', blurb = [], source = \<lparr>name = [], url = str ''u2''\<rparr>,
       category = [], publishedAt = 30, takeaway = None, keywords' = [], priority = None\<rparr>,
      \<lparr>articleId = [], headline = str ''r3'', blurb = [], source = \<lparr>name = [], url = str ''u1''\<rparr>,
       category = [], publishedAt = 20, takeaway = None, keywords' = [], priority = None\<rparr>]
       [\<lparr>articleId = [], headline = str ''m1'', blurb = [], source = \<lparr>name = [], url = str ''u2''\<rparr>,
       category = [], publishedAt = 40, takeaway = None, keywords' = [], priority = Some (str ''normal'')\<rparr>,
      \<lparr>articleId = [], headline = str ''h'', blurb = [], source = \<lparr>name = [], url = str ''uh''\<rparr>,
       category = [], publishedAt = 5, takeaway = None, keywords' = [], priority = Some (str ''high'')\<rparr>,
      \<lparr>articleId = [], headline = str ''m2'', blurb = [], source = \<lparr>name = [], url = str ''um''\<rparr>,
       category = [], publishedAt = 1, takeaway = None, keywords' = [], priority = Some (str ''normal'')\<rparr>]
     = [\<lparr>articleId = [], headline = str ''h'', blurb = [], source = \<lparr>name = [], url = str ''uh''\<rparr>,
       category = [], publishedAt = 5, takeaway = None, keywords' = [], priority = Some (str ''high'')\<rparr>,
      \<lparr>articleId = [], headline = str ''r2'', blurb = [], source = \<lparr>name = [], url = str ''u2''\<rparr>,
       category = [], publishedAt = 30, takeaway = None, keywords' = [], priority = None\<rparr>,
      \<lparr>articleId = [], headline = str ''r3'', blurb = [], source = \<lparr>name = [], url = str ''u1''\<rparr>,
       category = [], publishedAt = 20, takeaway = None, keywords' = [], priority = None\<rparr>,
      \<lparr>articleId = [], headline = str ''m2'', blurb = [], source = \<lparr>name = [], url = str ''um''\<rparr>,
       category = [], publishedAt = 1, takeaway = None, keywords' = [], priority = Some (str ''normal'')\<rparr>]"
proof -
  let ?r1 = "\<lparr>articleId = [], headline = str ''r1'', blurb = [], source = \<lparr>name = [], url = str ''u1''\<rparr>,
       category = [], publishedAt = 10, takeaway = None, keywords' = [], priority = None\<rparr>"
  let ?r2 = "\<lparr>articleId = [], headline = str ''r2'', blurb = [], source = \<lparr>name = [], url = str ''u2''\<rparr>,
       category = [], publishedAt = 30, takeaway = None, keywords' = [], priority = None\<rparr>"
  let ?r3 = "\<lparr>articleId = [], headline = str ''r3'', blurb = [], source = \<lparr>name = [], url = str ''u1''\<rparr>,
       category = [], publishedAt = 20, takeaway = None, keywords' = [], priority = None\<rparr>"
  let ?h = "\<lparr>articleId = [], headline = str ''h'', blurb = [], source = \<lparr>name = [], url = str ''uh''\<rparr>,
       category = [], publishedAt = 5, takeaway = None, keywords' = [], priority = Some (str ''high'')\<rparr>"
  let ?m1 = "\<lparr>articleId = [], headline = str ''m1'', blurb = [], source = \<lparr>name = [], url = str ''u2''\<rparr>,
       category = [], publishedAt = 40, takeaway = None, keywords' = [], priority = Some (str ''normal'')\<rparr>"
  let ?m2 = "\<lparr>articleId = [], headline = str ''m2'', blurb = [], source = \<lparr>name = [], url = str ''um''\<rparr>,
       category = [], publishedAt = 1, takeaway = None, keywords' = [], priority = Some (str ''normal'')\<rparr>"
  have sorted: "sortByDateDesc [?r1, ?r2, ?r3] = [?r2, ?r3, ?r1]"
    by (simp add: sortByDateDesc_def)
  have kept: "keep_first_by_url [?r2, ?r3, ?r1] = [?r2, ?r3]"
    by (simp add: str_def)
  have combined:
    "filter (\<lambda>a. priority a = Some (str ''high'')) [?m1, ?h, ?m2]
       @ keep_first_by_url (sortByDateDesc [?r1, ?r2, ?r3])
       @ filter (\<lambda>a. priority a \<noteq> Some (str ''high'')
                     \<and> url (source a) \<notin> (\<lambda>a. url (source a)) ` set [?r1, ?r2, ?r3])
           [?m1, ?h, ?m2]
     = [?h, ?r2, ?r3, ?m2]"
    unfolding sorted kept by (simp add: str_def)
  have pos: "0 < (3::int)" by simp
  from pos mergeArticles_spec [of "Some 3" "[?r1, ?r2, ?r3]" "[?m1, ?h, ?m2]" 3]
  have "mergeArticles (Some 3) [?r1, ?r2, ?r3] [?m1, ?h, ?m2]
        = take (nat 3)
            (filter (\<lambda>a. priority a = Some (str ''high'')) [?m1, ?h, ?m2]
             @ keep_first_by_url (sortByDateDesc [?r1, ?r2, ?r3])
             @ filter (\<lambda>a. priority a \<noteq> Some (str ''high'')
                     \<and> url (source a) \<notin> (\<lambda>a. url (source a)) ` set [?r1, ?r2, ?r3])
                 [?m1, ?h, ?m2])"
    by blast
  then have three: "mergeArticles (Some 3) [?r1, ?r2, ?r3] [?m1, ?h, ?m2] = [?h, ?r2, ?r3]"
    unfolding combined by simp
  from mergeArticles_spec [of None "[?r1, ?r2, ?r3]" "[?m1, ?h, ?m2]" 3]
  have "mergeArticles None [?r1, ?r2, ?r3] [?m1, ?h, ?m2]
        = jsSlice0 (maxArticlesOf None)
            (filter (\<lambda>a. priority a = Some (str ''high'')) [?m1, ?h, ?m2]
             @ keep_first_by_url (sortByDateDesc [?r1, ?r2, ?r3])
             @ filter (\<lambda>a. priority a \<noteq> Some (str ''high'')
                     \<and> url (source a) \<notin> (\<lambda>a. url (source a)) ` set [?r1, ?r2, ?r3])
                 [?m1, ?h, ?m2])"
    by blast
  then have dflt: "mergeArticles None [?r1, ?r2, ?r3] [?m1, ?h, ?m2] = [?h, ?r2, ?r3, ?m2]"
    unfolding combined by (simp add: maxArticlesOf_def jsSlice0_def)
  from pos three dflt show ?thesis by blast
qed

section \<open>Properties of the run\<close>

lemma createFallbackTakeaway_ignores_takeaway:
  "createFallbackTakeaway lower (a\<lparr>takeaway := t\<rparr>) = createFallbackTakeaway lower a"
  by (simp add: createFallbackTakeaway_def)

lemma generateTakeaway_ignores_takeaway:
  "generateTakeaway lower key (a\<lparr>takeaway := t\<rparr>) outcome = generateTakeaway lower key a outcome"
  by (simp add: generateTakeaway_def createFallbackTakeaway_ignores_takeaway
      split: sum.splits option.splits)

lemma processArticles_length: "length (processArticles lower key net i xs) = length xs"
  by (induction xs arbitrary: i) simp_all

lemma processArticles_nth:
  "j < length xs \<Longrightarrow>
   processArticles lower key net i xs ! j
   = (xs ! j)\<lparr>takeaway := Some (generateTakeaway lower key (xs ! j) (net (i + j)))\<rparr>"
proof (induction xs arbitrary: i j)
  case Nil
  then show ?case by simp
next
  case (Cons a rest)
  show ?case
  proof (cases j)
    case 0
    then show ?thesis by simp
  next
    case (Suc k)
    with Cons.prems have "k < length rest" by simp
    from Cons.IH [OF this, of "Suc i"] Suc show ?thesis by simp
  qed
qed

lemma processArticles_ignores_preset:
  "processArticles lower key net i (map (\<lambda>a. a\<lparr>takeaway := t a\<rparr>) xs)
   = processArticles lower key net i xs"
  by (induction xs arbitrary: i) (simp_all add: generateTakeaway_ignores_takeaway)

text \<open>
  Claim C2.  The loop of \<open>generateHTML\<close> assigns the result of \<open>generateTakeaway\<close>
  to every article, and \<open>generateTakeaway\<close> does not look at the takeaway an article
  already has (lemma \<open>processArticles_ignores_preset\<close>).  So the takeaway that a manual
  entry sets is carried into the article list by \<open>main\<close> and then overwritten: here
  the entry sets \<open>Join us on Saturday.\<close>, no key is configured, and the article written
  has the generic fallback sentence.
\<close>

theorem manual_takeaway_overwritten:
  "mTakeaway \<lparr>mHeadline = str ''Hangar open house'', mBlurb = None, mSource = None,
        mUrl = str ''https://pai.example/open'', mDate = Some 0, mCategory = None,
        mPriority = Some (str ''high''), mTakeaway = Some (str ''Join us on Saturday.'')\<rparr>
     = Some (str ''Join us on Saturday.'')
   \<and> map_option (map takeaway)
       (main asciiLower None (\<lambda>i. FetchRejected) 0 None []
          [\<lparr>mHeadline = str ''Hangar open house'', mBlurb = None, mSource = None,
            mUrl = str ''https://pai.example/open'', mDate = Some 0, mCategory = None,
            mPriority = Some (str ''high''), mTakeaway = Some (str ''Join us on Saturday.'')\<rparr>])
     = Some [Some (str ''Industry developments to monitor closely.'')]"
  by (simp add: main_def formatManualArticle_def mergeArticles_def sortByDateDesc_def
      maxArticlesOf_def jsSlice0_def orElse_def generateTakeaway_def createFallbackTakeaway_def
      Let_def asciiLower_def str_def)

section \<open>Properties of the quota recording\<close>

lemma generateAnalystBrief_records_once:
  "orElse apiKey [] \<noteq> [] \<Longrightarrow>
   snd (generateAnalystBrief today apiKey outcome f) = snd (recordGeminiCalls today (Fin 1) f)"
  by (cases outcome) (simp_all add: generateAnalystBrief_def tryAnalystBrief_def)

lemma recordGeminiCalls_count:
  assumes "well_formed_today today f" "representable (todays_count today f + 1)"
  shows "snd (recordGeminiCalls today (Fin 1) f)
   = Stored \<lparr>date = today, geminiCallsToday = CountNumber (Fin (todays_count today f + 1))\<rparr>"
proof -
  obtain d v where c: "loadCounters today f = \<lparr>date = d, geminiCallsToday = v\<rparr>"
    by (cases "loadCounters today f")
  from loadCounters_date [of today f] c have d: "d = today"
    by simp
  from loadCounters_well_formed [OF assms(1)] c have v: "toNumeric v = Fin (todays_count today f)"
    by simp
  show ?thesis
    using assms(2)
    by (simp add: recordGeminiCalls_def Let_def c d v saveCounters_def stringifyCount_def
        roundInt_exact)
qed

lemma generateAnalystBrief_count:
  "orElse apiKey [] \<noteq> [] \<Longrightarrow> well_formed_today today f \<Longrightarrow>
   representable (todays_count today f + 1) \<Longrightarrow>
   todays_count today (snd (generateAnalystBrief today apiKey outcome f)) = todays_count today f + 1"
  by (simp add: generateAnalystBrief_records_once recordGeminiCalls_count todays_count_def)

lemma generateTakeawayIO_frame: "snd (generateTakeawayIO lower key a outcome f) = f"
  by (simp add: generateTakeawayIO_def)

text \<open>
  Claim C1.  \<open>generateAnalystBrief\<close>, when a key is present, records one call
  whatever the request does, which raises today's count of a well-formed file by exactly
  one (lemmas \<open>generateAnalystBrief_records_once\<close> and \<open>generateAnalystBrief_count\<close>).  \<open>generateTakeaway\<close> does not: with a key present
  and the request made (here it is rejected), the counter file that held four calls
  today still holds four.
\<close>

theorem generateTakeaway_records_nothing:
  "generateTakeawayIO asciiLower (Some (str ''key''))
     \<lparr>articleId = [], headline = str ''Quarterly results'', blurb = [],
      source = \<lparr>name = [], url = []\<rparr>, category = str ''industry'', publishedAt = 0,
      takeaway = None, keywords' = [], priority = None\<rparr>
     FetchRejected (Stored \<lparr>date = str ''2026-02-19'', geminiCallsToday = CountNumber (Fin 4)\<rparr>)
   = (str ''Industry developments to monitor closely.'',
      Stored \<lparr>date = str ''2026-02-19'', geminiCallsToday = CountNumber (Fin 4)\<rparr>)
   \<and> todays_count (str ''2026-02-19'')
       (snd (generateTakeawayIO asciiLower (Some (str ''key''))
         \<lparr>articleId = [], headline = str ''Quarterly results'', blurb = [],
          source = \<lparr>name = [], url = []\<rparr>, category = str ''industry'', publishedAt = 0,
          takeaway = None, keywords' = [], priority = None\<rparr>
         FetchRejected (Stored \<lparr>date = str ''2026-02-19'', geminiCallsToday = CountNumber (Fin 4)\<rparr>)))
     = 4"
  by (simp add: generateTakeawayIO_def generateTakeaway_def tryTakeaway_def orElse_def
      createFallbackTakeaway_def Let_def asciiLower_def str_def todays_count_def)


end
